theory Spec2Isabelle
  imports Complex_Main "HOL-Library.AList" "HOL-Library.Char_ord"
    "HOL-Library.List_Lexorder" "HOL-Library.Multiset" "HOL-Library.Product_Lexorder"
begin

section \<open>DNR cross-section tools: well stick diagrams and raster profiles\<close>

text \<open>
  A shallow embedding of \<^verbatim>\<open>Scripts3_3_1/CreateLixpys_unloc.py\<close> and
  \<^verbatim>\<open>Scripts3_3_1/RasterProfiles.py\<close>. Both are straight-line scripts; every
  numbered cell of a script is one stage that transforms the output geodatabase and may
  raise. Python floats are read as exact reals, Python ints as \<open>int\<close>. Feature
  classes and tables are lists of rows in cursor order. Progress messages that carry no
  diagnostic (start and end times, "Creating empty ... file") are left out of the log.
  Spatial references, field lists and the joins of descriptive attributes (cells 4, 8
  to 12, 18 and 19 of the well stick script) have no part in the geometry and are left
  out as well.
\<close>

subsection \<open>Data\<close>

type_synonym point = "real \<times> real"

text \<open>A well id is read from a numeric or a text field.\<close>

datatype ident = NumericId int | TextId string

datatype py_type = Py_number | Py_str

fun type_of :: "ident \<Rightarrow> py_type" where
  "type_of (NumericId _) = Py_number"
| "type_of (TextId _) = Py_str"

text \<open>
  A cross-section line: \<open>getPart(0)\<close> is \<open>part0\<close>; the geometry is multipart when it
  has further parts.
\<close>

record xsln_row =
  xsln_etid :: string
  part0 :: "point list"
  other_parts :: "point list list"

definition isMultipart :: "xsln_row \<Rightarrow> bool" where
  "isMultipart r = (other_parts r \<noteq> [])"

record wwpt_row =
  wwpt_shape :: point
  wwpt_wellid :: ident
  wwpt_etid :: string

record strat_row =
  strat_oid :: int
  strat_wellid :: ident
  elev_top :: "real option"
  elev_bot :: "real option"

text \<open>The tool parameters and the three input datasets of the well stick script.\<close>

record tool_input =
  strat_table :: "strat_row list"
  wwpt_file_orig :: "wwpt_row list"
  xsln_file_orig :: "xsln_row list"
  buffer_dist :: int
  vertical_exaggeration :: int
  well_stick_width :: real

text \<open>A well point after near analysis (cell 14).\<close>

record wwpt_near_row =
  near_shape :: point
  near_wellid :: ident
  near_etid :: string
  NEAR_X :: real
  NEAR_Y :: real
  NEAR_DIST :: real
  OnLine_DIST :: real

record line3d_row =
  l3_geometry :: "(real \<times> real \<times> real) list"
  l3_wellid :: ident
  l3_etid :: string
  l3_x_coord :: real
  l3_y_coord :: real
  l3_z_top :: real
  l3_z_bot :: real
  l3_strat_oid :: int

record line2d_row =
  l2_geometry :: "point list"
  l2_wellid :: ident
  l2_etid :: string
  l2_x_coord :: real
  l2_y_coord :: real
  l2_z_top :: real
  l2_z_bot :: real
  l2_strat_oid :: int
  l2_distance :: real
  l2_pct_dist :: real

record poly_row =
  poly_ring :: "point list"
  poly_source :: line2d_row

subsection \<open>Messages and errors\<close>

text \<open>
  \<open>printit\<close> adds a message, \<open>printerror\<close> adds an error message; neither stops the
  script. Only \<open>raise SystemExit\<close> and an uncaught exception do.
\<close>

datatype channel = AddMessage | AddError

text \<open>
  The diagnostics of the two scripts, each with the numbers and ids that its text
  carries: "cross section file contains multipart features. Continuing may result in
  errors."; "Buffer distance must be greater than zero."; "Vertical Exaggeration must be
  greater than 0."; "... is empty. Tool will not run correctly." for each of the three
  inputs; "n stratigraphy records have no matching well points"; "n well points have no
  matching stratigraphy records"; "there are n et_id's in well point file that do not
  match any et_id's in cross section line file" with their list; "there are n cross
  section lines that do not have any associated well points" with their list;
  "mismatched data types in the well id field"; "Strat record number n has no value in
  elev_top field. Skipping." and the same for elev_bot; "Could not find matching well
  point for n stratigraphy table records."; "Cannot use reserved fields ..."; "A raster
  name contains non-alphanumeric characters."
\<close>

datatype msg =
    Multipart_warning
  | Buffer_not_positive
  | VE_not_positive
  | Strat_table_empty
  | Wwpt_file_empty
  | Xsln_file_empty
  | Strat_without_wwpt nat
  | Wwpt_without_strat nat
  | Wwpt_etid_without_xsln nat "string list"
  | Xsln_without_wwpt nat "string list"
  | Wellid_type_mismatch
  | Skipping_no_elev_top int
  | Skipping_no_elev_bot int
  | No_matching_well_point nat
  | Reserved_field
  | Raster_name_not_alnum

datatype error = SystemExit | IndexError | ExecuteError

text \<open>What every script tool has: the messages it has added so far.\<close>

record geoprocessor =
  messages :: "(channel \<times> msg) list"

text \<open>
  The output geodatabase of the well stick script, and the list of well ids without a
  well point that cell 17 keeps.
\<close>

record workspace = geoprocessor +
  xsln_temp :: "(string \<times> point list) list"
  unloc_wwpt_by_xs :: "(string \<times> wwpt_near_row list) list"
  wwpt_unloc_merge :: "wwpt_near_row list"
  lixpys_unloc_3d :: "line3d_row list"
  lixpys_unloc_2d_line :: "line2d_row list"
  nomatch_list :: "ident list"
  lixpys_unloc_2d_poly :: "poly_row list"

definition empty_workspace :: workspace where
  "empty_workspace = \<lparr>messages = [], xsln_temp = [], unloc_wwpt_by_xs = [],
     wwpt_unloc_merge = [], lixpys_unloc_3d = [], lixpys_unloc_2d_line = [],
     nomatch_list = [], lixpys_unloc_2d_poly = []\<rparr>"

definition printit :: "msg \<Rightarrow> 'a geoprocessor_scheme \<Rightarrow> 'a geoprocessor_scheme" where
  "printit m w = w\<lparr>messages := messages w @ [(AddMessage, m)]\<rparr>"

definition printerror :: "msg \<Rightarrow> 'a geoprocessor_scheme \<Rightarrow> 'a geoprocessor_scheme" where
  "printerror m w = w\<lparr>messages := messages w @ [(AddError, m)]\<rparr>"

text \<open>
  A stage returns the workspace it leaves behind and the exception it raised, if any.
  The script is the sequence of its stages; the first exception ends the run and keeps
  whatever was written before.
\<close>

type_synonym 'w stage = "'w \<Rightarrow> 'w \<times> error option"

fun run_stages :: "'w stage list \<Rightarrow> 'w stage" where
  "run_stages [] w = (w, None)"
| "run_stages (f # fs) w =
     (case f w of (w', Some e) \<Rightarrow> (w', Some e) | (w', None) \<Rightarrow> run_stages fs w')"

subsection \<open>Cells 5 and 6: data QC\<close>

definition multipart_check :: "xsln_row list \<Rightarrow> 'a geoprocessor_scheme stage" where
  "multipart_check xsln w =
     (if list_ex isMultipart xsln then (printerror Multipart_warning w, None) else (w, None))"

definition buffer_check :: "int \<Rightarrow> 'a geoprocessor_scheme stage" where
  "buffer_check bd w =
     (if bd \<le> 0 then (printerror Buffer_not_positive w, Some SystemExit) else (w, None))"

definition ve_check :: "int \<Rightarrow> 'a geoprocessor_scheme stage" where
  "ve_check ve w =
     (if ve \<le> 0 then (printerror VE_not_positive w, Some SystemExit) else (w, None))"

definition count_check :: "msg \<Rightarrow> 'r list \<Rightarrow> 'a geoprocessor_scheme stage" where
  "count_check m rows w = (if length rows = 0 then (printerror m w, None) else (w, None))"

subsection \<open>Cell 7: matching of well ids and cross-section ids\<close>

text \<open>\<open>if x not in l: l.append(x)\<close> over a cursor: first occurrences, in order.\<close>

fun append_new :: "'a list \<Rightarrow> 'a list \<Rightarrow> 'a list" where
  "append_new acc [] = acc"
| "append_new acc (x # xs) = append_new (if x \<in> set acc then acc else acc @ [x]) xs"

text \<open>The four \<open>listprint\<close> loops: the members of \<open>xs\<close> that are not in \<open>ys\<close>.\<close>

definition listprint :: "'a list \<Rightarrow> 'a list \<Rightarrow> 'a list" where
  "listprint xs ys = filter (\<lambda>x. x \<notin> set ys) xs"

definition warn_if_any :: "'a list \<Rightarrow> (nat \<Rightarrow> msg) \<Rightarrow> workspace \<Rightarrow> workspace" where
  "warn_if_any l m w = (if length l > 0 then printit (m (length l)) w else w)"

definition strat_wellid_list :: "tool_input \<Rightarrow> ident list" where
  "strat_wellid_list inp = append_new [] (map strat_wellid (strat_table inp))"

definition wwpt_wellid_list :: "tool_input \<Rightarrow> ident list" where
  "wwpt_wellid_list inp = append_new [] (map wwpt_wellid (wwpt_file_orig inp))"

definition wwpt_etid_list :: "tool_input \<Rightarrow> string list" where
  "wwpt_etid_list inp = append_new [] (map wwpt_etid (wwpt_file_orig inp))"

definition xsln_etid_list :: "tool_input \<Rightarrow> string list" where
  "xsln_etid_list inp = append_new [] (map xsln_etid (xsln_file_orig inp))"

definition orphan_warnings :: "tool_input \<Rightarrow> workspace \<Rightarrow> workspace" where
  "orphan_warnings inp w =
     (let l1 = listprint (strat_wellid_list inp) (wwpt_wellid_list inp);
          w1 = warn_if_any l1 Strat_without_wwpt w;
          l2 = listprint (wwpt_wellid_list inp) (strat_wellid_list inp);
          w2 = warn_if_any l2 Wwpt_without_strat w1;
          l3 = listprint (wwpt_etid_list inp) (xsln_etid_list inp);
          w3 = warn_if_any l3 (\<lambda>n. Wwpt_etid_without_xsln n l3) w2;
          l4 = listprint (xsln_etid_list inp) (wwpt_etid_list inp)
      in warn_if_any l4 (\<lambda>n. Xsln_without_wwpt n l4) w3)"

text \<open>
  \<open>type(strat_wellid_list[0]) != type(wwpt_wellid_list[0])\<close>: indexing an empty list
  raises \<open>IndexError\<close>.
\<close>

definition type_check :: "tool_input \<Rightarrow> workspace stage" where
  "type_check inp w =
     (case strat_wellid_list inp of
        [] \<Rightarrow> (w, Some IndexError)
      | s # _ \<Rightarrow>
          (case wwpt_wellid_list inp of
             [] \<Rightarrow> (w, Some IndexError)
           | p # _ \<Rightarrow>
               (if type_of s \<noteq> type_of p then (printerror Wellid_type_mismatch w, None)
                else (w, None))))"

definition reconcile :: "tool_input \<Rightarrow> workspace stage" where
  "reconcile inp w = type_check inp (orphan_warnings inp w)"

subsection \<open>Planar geometry of the GIS platform\<close>

text \<open>
  The scripts call geometry methods and tools of the GIS platform, a library outside
  the repository. Each is modelled below from what the spec says of it, in the plane and
  in exact real arithmetic.
\<close>

definition planar_dist :: "point \<Rightarrow> point \<Rightarrow> real" where
  "planar_dist p q = sqrt ((fst q - fst p)\<^sup>2 + (snd q - snd p)\<^sup>2)"

text \<open>
  Modelled from the spec: \<open>angleAndDistanceTo\<close> is a method of the platform's point
  geometry. It gives the bearing from a point to another, an angle in degrees clockwise
  from north, above -180 and at most 180 (0 when the points coincide), and their planar
  distance.
\<close>

definition angleAndDistanceTo :: "point \<Rightarrow> point \<Rightarrow> real \<times> real" where
  "angleAndDistanceTo p q =
     (Arg (Complex (snd q - snd p) (fst q - fst p)) * 180 / pi, planar_dist p q)"

text \<open>
  Modelled from the spec: \<open>pointFromAngleAndDistance\<close> is a method of the platform's
  point geometry. It gives the point at a distance from a point along a bearing.
\<close>

definition pointFromAngleAndDistance :: "point \<Rightarrow> real \<Rightarrow> real \<Rightarrow> point" where
  "pointFromAngleAndDistance p angle d =
     (fst p + d * sin (angle * pi / 180), snd p + d * cos (angle * pi / 180))"

text \<open>
  Modelled from the spec: the nearest point of a polyline, which the platform computes
  inside \<open>Near\<close> and \<open>measureOnLine\<close>. It is the closest point over all segments, the
  projection on each segment clamped to the segment, and the first segment in line order
  wins a tie. There is one candidate per segment: the closest point of the segment, its
  distance to the query point, and its distance along the line (\<open>acc\<close> is the length of
  the line before the segment). A polyline with fewer than two vertices has no segment
  and no nearest point; cell 13 raises before it writes such a line.
\<close>

definition closest_on_segment :: "point \<Rightarrow> point \<Rightarrow> point \<Rightarrow> point" where
  "closest_on_segment a b p =
     (let dx = fst b - fst a; dy = snd b - snd a; l2 = dx * dx + dy * dy
      in if l2 = 0 then a
         else (let t = max 0 (min 1 (((fst p - fst a) * dx + (snd p - snd a) * dy) / l2))
               in (fst a + t * dx, snd a + t * dy)))"

fun candidates :: "real \<Rightarrow> point list \<Rightarrow> point \<Rightarrow> (point \<times> real \<times> real) list" where
  "candidates acc (a # b # vs) p =
     (let c = closest_on_segment a b p
      in (c, planar_dist p c, acc + planar_dist a c)
         # candidates (acc + planar_dist a b) (b # vs) p)"
| "candidates acc vs p = []"

definition queryPointAndDistance :: "point list \<Rightarrow> point \<Rightarrow> (point \<times> real \<times> real) option" where
  "queryPointAndDistance line p =
     (case candidates 0 line p of
        [] \<Rightarrow> None
      | c # cs \<Rightarrow> Some (arg_min_list (\<lambda>(c, d, m). d) (c # cs)))"

text \<open>
  Modelled from the spec: \<open>measureOnLine\<close> is a method of the platform's polyline. It
  gives the length of the line from its first vertex to the point of the line nearest to
  the given point.
\<close>

definition measureOnLine :: "point list \<Rightarrow> point \<Rightarrow> real" where
  "measureOnLine line p =
     (case queryPointAndDistance line p of None \<Rightarrow> 0 | Some (c, d, m) \<Rightarrow> m)"

text \<open>
  Modelled from the spec: \<open>Near\<close> is a tool of the platform. With the \<open>LOCATION\<close>
  option and no search radius it stores the nearest point of the line and the distance
  to it in \<open>NEAR_X\<close>, \<open>NEAR_Y\<close> and \<open>NEAR_DIST\<close>, and -1 in each when there is nothing
  to be near to.
\<close>

definition Near :: "point list \<Rightarrow> point \<Rightarrow> real \<times> real \<times> real" where
  "Near line p =
     (case queryPointAndDistance line p of
        None \<Rightarrow> (- 1, - 1, - 1)
      | Some (c, d, m) \<Rightarrow> (fst c, snd c, d))"

subsection \<open>Cell 13: the temporary, extended cross-section lines\<close>

text \<open>
  \<open>geompointlist[1]\<close> and \<open>geompointlist[-2]\<close> raise \<open>IndexError\<close> on fewer than two
  vertices. Both new points are computed before either is stored.
\<close>

fun extend_line :: "int \<Rightarrow> point list \<Rightarrow> error + point list" where
  "extend_line bd [] = Inl IndexError"
| "extend_line bd [v] = Inl IndexError"
| "extend_line bd geompointlist =
     (let n = length geompointlist;
          beg_pt = geompointlist ! 0;
          beg_pt2 = geompointlist ! 1;
          beg_angle = fst (angleAndDistanceTo beg_pt2 beg_pt);
          end_pt = geompointlist ! (n - 1);
          end_pt2 = geompointlist ! (n - 2);
          end_angle = fst (angleAndDistanceTo end_pt2 end_pt);
          new_beg = pointFromAngleAndDistance beg_pt beg_angle (real_of_int bd);
          new_end = pointFromAngleAndDistance end_pt end_angle (real_of_int bd)
      in Inr (geompointlist[0 := new_beg, n - 1 := new_end]))"

fun extend_lines :: "int \<Rightarrow> xsln_row list \<Rightarrow> workspace stage" where
  "extend_lines bd [] w = (w, None)"
| "extend_lines bd (line # rest) w =
     (case extend_line bd (part0 line) of
        Inl e \<Rightarrow> (w, Some e)
      | Inr pointlist \<Rightarrow>
          extend_lines bd rest (w\<lparr>xsln_temp := xsln_temp w @ [(xsln_etid line, pointlist)]\<rparr>))"

subsection \<open>Cells 14 to 16: near analysis and the merged well point file\<close>

definition near_row :: "int \<Rightarrow> point list \<Rightarrow> wwpt_row \<Rightarrow> wwpt_near_row" where
  "near_row bd xsln_geometry well =
     (case Near xsln_geometry (wwpt_shape well) of
        (x, y, nd) \<Rightarrow>
          (let n = measureOnLine xsln_geometry (x, y)
           in \<lparr>near_shape = wwpt_shape well, near_wellid = wwpt_wellid well,
                near_etid = wwpt_etid well, NEAR_X = x, NEAR_Y = y, NEAR_DIST = nd,
                OnLine_DIST = n - real_of_int bd\<rparr>))"

text \<open>
  One file \<open>wwpt_<et_id>\<close> per line of the temporary file, holding the wells selected
  by that id; a second line with the same id overwrites the file.
\<close>

fun near_analysis :: "int \<Rightarrow> wwpt_row list \<Rightarrow> (string \<times> point list) list
    \<Rightarrow> workspace stage" where
  "near_analysis bd wwpt [] w = (w, None)"
| "near_analysis bd wwpt ((et_id, xsln_geometry) # rest) w =
     (let selected = filter (\<lambda>well. wwpt_etid well = et_id) wwpt;
          wwpt_by_xs_file = map (near_row bd xsln_geometry) selected
      in near_analysis bd wwpt rest
           (w\<lparr>unloc_wwpt_by_xs :=
                 AList.update (''wwpt_'' @ et_id) wwpt_by_xs_file (unloc_wwpt_by_xs w)\<rparr>))"

text \<open>
  \<open>Merge\<close> of the files of the feature dataset, in the order in which they are listed.
  The platform refuses an empty list of inputs (a required parameter has no value).
\<close>

definition merge_wwpt :: "workspace stage" where
  "merge_wwpt w =
     (case unloc_wwpt_by_xs w of
        [] \<Rightarrow> (w, Some ExecuteError)
      | wwpt_list \<Rightarrow> (w\<lparr>wwpt_unloc_merge := concat (map snd wwpt_list)\<rparr>, None))"

subsection \<open>Cell 17: 3D and 2D polylines from the stratigraphy table\<close>

text \<open>The variables that the inner cursor loop over the matching well points assigns.\<close>

record well_vars =
  real_x :: real
  real_y :: real
  x_coord :: real
  dist :: real
  pct_dist :: real
  et_id :: string

definition read_well :: "int \<Rightarrow> int \<Rightarrow> wwpt_near_row \<Rightarrow> well_vars" where
  "read_well bd ve well =
     (let x_coord_meters = OnLine_DIST well;
          x_coord_feet = x_coord_meters / 0.3048
      in \<lparr>real_x = fst (near_shape well), real_y = snd (near_shape well),
           x_coord = x_coord_feet / real_of_int ve,
           dist = NEAR_DIST well,
           pct_dist = NEAR_DIST well / real_of_int bd * 200,
           et_id = near_etid well\<rparr>)"

text \<open>
  \<open>for well in wwpt: i += 1; ...\<close>: every matching well point overwrites the variables
  of the one before.
\<close>

fun wwpt_cursor :: "int \<Rightarrow> int \<Rightarrow> wwpt_near_row list \<Rightarrow> nat \<times> well_vars option
    \<Rightarrow> nat \<times> well_vars option" where
  "wwpt_cursor bd ve [] (i, vars) = (i, vars)"
| "wwpt_cursor bd ve (well # rest) (i, vars) =
     wwpt_cursor bd ve rest (i + 1, Some (read_well bd ve well))"

text \<open>The where clause selects the well points whose well id equals that of the record.\<close>

definition where_clause :: "ident \<Rightarrow> wwpt_near_row list \<Rightarrow> wwpt_near_row list" where
  "where_clause wellid wwpt_merge = filter (\<lambda>well. near_wellid well = wellid) wwpt_merge"

definition insert_rows :: "strat_row \<Rightarrow> real \<Rightarrow> real \<Rightarrow> well_vars \<Rightarrow> workspace \<Rightarrow> workspace" where
  "insert_rows row real_z_top real_z_bot v w =
     (let real_pointA = (real_x v, real_y v, real_z_top);
          real_pointB = (real_x v, real_y v, real_z_bot);
          pointA = (x_coord v, real_z_top);
          pointB = (x_coord v, real_z_bot)
      in w\<lparr>lixpys_unloc_3d := lixpys_unloc_3d w @
              [\<lparr>l3_geometry = [real_pointA, real_pointB], l3_wellid = strat_wellid row,
                l3_etid = et_id v, l3_x_coord = real_x v, l3_y_coord = real_y v,
                l3_z_top = real_z_top, l3_z_bot = real_z_bot,
                l3_strat_oid = strat_oid row\<rparr>],
            lixpys_unloc_2d_line := lixpys_unloc_2d_line w @
              [\<lparr>l2_geometry = [pointA, pointB], l2_wellid = strat_wellid row,
                l2_etid = et_id v, l2_x_coord = real_x v, l2_y_coord = real_y v,
                l2_z_top = real_z_top, l2_z_bot = real_z_bot,
                l2_strat_oid = strat_oid row, l2_distance = dist v,
                l2_pct_dist = pct_dist v\<rparr>]\<rparr>)"

definition strat_record :: "int \<Rightarrow> int \<Rightarrow> strat_row \<Rightarrow> workspace \<Rightarrow> workspace" where
  "strat_record bd ve row w =
     (case elev_top row of
        None \<Rightarrow> printit (Skipping_no_elev_top (strat_oid row)) w
      | Some real_z_top \<Rightarrow>
          (case elev_bot row of
             None \<Rightarrow> printit (Skipping_no_elev_bot (strat_oid row)) w
           | Some real_z_bot \<Rightarrow>
               (case wwpt_cursor bd ve (where_clause (strat_wellid row) (wwpt_unloc_merge w))
                       (0, None) of
                  (i, vars) \<Rightarrow>
                    if i = 0 then w\<lparr>nomatch_list := nomatch_list w @ [strat_wellid row]\<rparr>
                    else (case vars of
                            None \<Rightarrow> w
                          | Some v \<Rightarrow> insert_rows row real_z_top real_z_bot v w))))"

fun strat_records :: "int \<Rightarrow> int \<Rightarrow> strat_row list \<Rightarrow> workspace \<Rightarrow> workspace" where
  "strat_records bd ve [] w = w"
| "strat_records bd ve (row # rest) w = strat_records bd ve rest (strat_record bd ve row w)"

definition nomatch_summary :: "workspace \<Rightarrow> workspace" where
  "nomatch_summary w =
     (if length (nomatch_list w) > 0
      then printit (No_matching_well_point (length (nomatch_list w))) w else w)"

definition strat_loop :: "tool_input \<Rightarrow> workspace stage" where
  "strat_loop inp w =
     (nomatch_summary
        (strat_records (buffer_dist inp) (vertical_exaggeration inp) (strat_table inp) w),
      None)"

subsection \<open>Cell 20: 2D polygons from the 2D lines\<close>

definition bufferdist :: "int \<Rightarrow> real \<Rightarrow> real" where
  "bufferdist ve width = (130 / real_of_int ve) + width"

text \<open>
  Modelled from the spec: \<open>Buffer\<close> is a tool of the GIS platform, outside the
  repository. With \<open>FLAT\<close> line ends, on a two-point line, it is the ring through the
  two end points moved by the distance to either side, at right angles to the line; the
  ends are not extended and not rounded. A line of no length has no side and gets an
  empty ring.
\<close>

definition Buffer_FLAT :: "point list \<Rightarrow> real \<Rightarrow> point list" where
  "Buffer_FLAT line d =
     (case line of
        [a, b] \<Rightarrow>
          (let l = planar_dist a b;
               nx = (snd a - snd b) / l;
               ny = (fst b - fst a) / l
           in if l = 0 then []
              else [(fst a + d * nx, snd a + d * ny), (fst b + d * nx, snd b + d * ny),
                    (fst b - d * nx, snd b - d * ny), (fst a - d * nx, snd a - d * ny)])
      | _ \<Rightarrow> [])"

text \<open>
  Modelled from the spec: \<open>Sort\<close> is a tool of the GIS platform, outside the
  repository. It orders the rows by one field, ascending: numbers by value, text by
  character code; rows with equal keys keep their order.
\<close>

fun sort_field :: "ident \<Rightarrow> bool \<times> int \<times> string" where
  "sort_field (NumericId n) = (False, n, [])"
| "sort_field (TextId s) = (True, 0, s)"

definition Sort :: "poly_row list \<Rightarrow> poly_row list" where
  "Sort rows = sort_key (\<lambda>r. sort_field (l2_wellid (poly_source r))) rows"

definition buffer_and_sort :: "tool_input \<Rightarrow> workspace stage" where
  "buffer_and_sort inp w =
     (let d = bufferdist (vertical_exaggeration inp) (well_stick_width inp);
          temp_polygon_file =
            map (\<lambda>r. \<lparr>poly_ring = Buffer_FLAT (l2_geometry r) d, poly_source = r\<rparr>)
              (lixpys_unloc_2d_line w)
      in (w\<lparr>lixpys_unloc_2d_poly := Sort temp_polygon_file\<rparr>, None))"

subsection \<open>The well stick script\<close>

text \<open>
  Everything up to the end of cell 7 reads the inputs and writes nothing. The run ends
  with cell 20: cell 21, which deletes the temporary feature classes (the 2D and 3D
  lines among them), is left out, so that the result still shows what was drawn.
\<close>

definition preflight :: "tool_input \<Rightarrow> workspace stage list" where
  "preflight inp =
     [multipart_check (xsln_file_orig inp),
      buffer_check (buffer_dist inp),
      ve_check (vertical_exaggeration inp),
      count_check Strat_table_empty (strat_table inp),
      count_check Wwpt_file_empty (wwpt_file_orig inp),
      count_check Xsln_file_empty (xsln_file_orig inp),
      reconcile inp]"

definition processing :: "tool_input \<Rightarrow> workspace stage list" where
  "processing inp =
     [extend_lines (buffer_dist inp) (xsln_file_orig inp),
      (\<lambda>w. near_analysis (buffer_dist inp) (wwpt_file_orig inp) (xsln_temp w) w),
      merge_wwpt,
      strat_loop inp,
      buffer_and_sort inp]"

definition CreateLixpys_unloc :: "tool_input \<Rightarrow> workspace \<times> error option" where
  "CreateLixpys_unloc inp = run_stages (preflight inp @ processing inp) empty_workspace"

subsection \<open>The raster profile script\<close>

text \<open>
  A raster surface enters with the 3D profiles that \<open>InterpolateShape\<close> and
  \<open>MultipartToSinglepart\<close> produce for it along the cross-section lines; sampling the
  raster is the platform's work. A raster that passes the name check has no path
  separator in its name, so its base name is the name itself.
\<close>

record profile3d_row =
  p3_etid :: string
  p3_part0 :: "(real \<times> real \<times> real) list"

record raster_surface =
  raster :: string
  profiles_3d :: "profile3d_row list"

record raster_input =
  rasters_list :: "raster_surface list"
  rp_xsln_file_orig :: "xsln_row list"
  xsln_etid_field :: string
  rp_vertical_exaggeration :: int
  merge_boolean :: bool

record profile2d_row =
  p2_geometry :: "point list"
  p2_etid :: string
  p2_raster_name :: string

text \<open>
  The 2D feature classes, by name: \<open>all_profiles_2d_<VE>x\<close> when profiles are merged,
  \<open><raster>_profiles2d_<VE>x\<close> otherwise.
\<close>

datatype fc_name = All_profiles_2d int | Profiles2d string int

record rp_workspace = geoprocessor +
  profiles_2d_files :: "(fc_name \<times> profile2d_row list) list"

definition empty_rp_workspace :: rp_workspace where
  "empty_rp_workspace = \<lparr>messages = [], profiles_2d_files = []\<rparr>"

text \<open>\<open>name in xsln_etid_field\<close> on strings: \<open>name\<close> occurs in the field name.\<close>

fun str_contains :: "string \<Rightarrow> string \<Rightarrow> bool" where
  "str_contains [] name = (name = [])"
| "str_contains (c # cs) name =
     (take (length name) (c # cs) = name \<or> str_contains cs name)"

definition reserved_fields :: "string list" where
  "reserved_fields = [''OBJECTID'', ''SHAPE'', ''Shape'', ''Shape_Length'']"

definition reserved_check :: "string \<Rightarrow> 'a geoprocessor_scheme stage" where
  "reserved_check field w =
     (if list_ex (str_contains field) reserved_fields
      then (printerror Reserved_field w, Some SystemExit) else (w, None))"

text \<open>\<open>str.isalnum\<close>, on ASCII text: not empty, letters and digits only.\<close>

definition isalnum_char :: "char \<Rightarrow> bool" where
  "isalnum_char c =
     (let n = (of_char c :: nat)
      in (48 \<le> n \<and> n \<le> 57) \<or> (65 \<le> n \<and> n \<le> 90) \<or> (97 \<le> n \<and> n \<le> 122))"

definition isalnum :: "string \<Rightarrow> bool" where
  "isalnum s = (s \<noteq> [] \<and> list_all isalnum_char s)"

definition raster_name_check :: "raster_surface list \<Rightarrow> 'a geoprocessor_scheme stage" where
  "raster_name_check rasters w =
     (if list_ex (\<lambda>r. isalnum (raster r) = False) rasters
      then (printerror Raster_name_not_alnum w, Some SystemExit) else (w, None))"

text \<open>Cell 6, innermost loop: a 3D profile vertex in cross-section view.\<close>

definition xy_xsecview :: "int \<Rightarrow> point list \<Rightarrow> real \<times> real \<times> real \<Rightarrow> point" where
  "xy_xsecview ve xsln_geometry vertex =
     (case vertex of
        (X, Y, Z) \<Rightarrow>
          (let x_2d_meters = measureOnLine xsln_geometry (X, Y);
               x_2d_feet = x_2d_meters / 0.3048;
               x_2d = x_2d_feet / real_of_int ve;
               y_2d = Z
           in (x_2d, y_2d)))"

definition profile_polyline :: "int \<Rightarrow> string \<Rightarrow> point list \<Rightarrow> profile3d_row \<Rightarrow> profile2d_row" where
  "profile_polyline ve name xsln_geometry feature =
     \<lparr>p2_geometry = map (xy_xsecview ve xsln_geometry) (p3_part0 feature),
      p2_etid = p3_etid feature, p2_raster_name = name\<rparr>"

text \<open>The rows that one raster adds: for every line, the profiles selected by its id.\<close>

definition raster_rows :: "int \<Rightarrow> xsln_row list \<Rightarrow> raster_surface \<Rightarrow> profile2d_row list" where
  "raster_rows ve xsln r =
     concat (map (\<lambda>line.
         map (profile_polyline ve (raster r) (part0 line))
           (filter (\<lambda>feature. p3_etid feature = xsln_etid line) (profiles_3d r)))
       xsln)"

definition insert_profiles :: "fc_name \<Rightarrow> profile2d_row list
    \<Rightarrow> (fc_name \<times> profile2d_row list) list \<Rightarrow> (fc_name \<times> profile2d_row list) list" where
  "insert_profiles fc rows files =
     (case map_of files fc of
        None \<Rightarrow> files @ [(fc, rows)]
      | Some old \<Rightarrow> AList.update fc (old @ rows) files)"

fun raster_profiles :: "raster_input \<Rightarrow> raster_surface list \<Rightarrow> rp_workspace stage" where
  "raster_profiles inp [] w = (w, None)"
| "raster_profiles inp (r # rest) w =
     (let ve = rp_vertical_exaggeration inp;
          profiles_2d = (if merge_boolean inp = True then All_profiles_2d ve
                         else Profiles2d (raster r) ve)
      in raster_profiles inp rest
           (w\<lparr>profiles_2d_files :=
                 insert_profiles profiles_2d (raster_rows ve (rp_xsln_file_orig inp) r)
                   (profiles_2d_files w)\<rparr>))"

definition rp_data_qc :: "raster_input \<Rightarrow> rp_workspace stage list" where
  "rp_data_qc inp =
     [count_check Xsln_file_empty (rp_xsln_file_orig inp),
      multipart_check (rp_xsln_file_orig inp),
      reserved_check (xsln_etid_field inp),
      ve_check (rp_vertical_exaggeration inp),
      raster_name_check (rasters_list inp)]"

definition RasterProfiles :: "raster_input \<Rightarrow> rp_workspace \<times> error option" where
  "RasterProfiles inp =
     run_stages (rp_data_qc inp @ [raster_profiles inp (rasters_list inp)]) empty_rp_workspace"

section \<open>Example inputs\<close>

text \<open>
  One straight line of 1000 m from the origin eastwards, a buffer of 500 m, an
  exaggeration of 50, and one well 50 m north of the end of the line.
\<close>

definition demo_xsln :: xsln_row where
  "demo_xsln = \<lparr>xsln_etid = ''A'', part0 = [(0, 0), (1000, 0)], other_parts = []\<rparr>"

definition demo_strat_row :: strat_row where
  "demo_strat_row =
     \<lparr>strat_oid = 1, strat_wellid = NumericId 7, elev_top = Some 300, elev_bot = Some 280\<rparr>"

definition demo_input :: tool_input where
  "demo_input =
     \<lparr>strat_table = [demo_strat_row],
      wwpt_file_orig = [\<lparr>wwpt_shape = (1000, 50), wwpt_wellid = NumericId 7,
                          wwpt_etid = ''A''\<rparr>],
      xsln_file_orig = [demo_xsln],
      buffer_dist = 500, vertical_exaggeration = 50, well_stick_width = 1 / 2\<rparr>"

definition demo_raster_input :: raster_input where
  "demo_raster_input =
     \<lparr>rasters_list = [\<lparr>raster = ''topo'',
                         profiles_3d = [\<lparr>p3_etid = ''A'',
                                          p3_part0 = [(0, 0, 310), (1000, 0, 305)]\<rparr>]\<rparr>],
      rp_xsln_file_orig = [demo_xsln], xsln_etid_field = ''et_id'',
      rp_vertical_exaggeration = 50, merge_boolean = False\<rparr>"

text \<open>The same line with a second, disjoint part.\<close>

definition multipart_xsln :: xsln_row where
  "multipart_xsln = demo_xsln\<lparr>other_parts := [[(0, 10), (5, 10)]]\<rparr>"

definition multipart_input :: tool_input where
  "multipart_input = demo_input\<lparr>xsln_file_orig := [multipart_xsln]\<rparr>"

definition multipart_raster_input :: raster_input where
  "multipart_raster_input = demo_raster_input\<lparr>rp_xsln_file_orig := [multipart_xsln]\<rparr>"

text \<open>No cross-section line at all.\<close>

definition no_xsln_input :: tool_input where
  "no_xsln_input = demo_input\<lparr>xsln_file_orig := []\<rparr>"

definition no_xsln_raster_input :: raster_input where
  "no_xsln_raster_input = demo_raster_input\<lparr>rp_xsln_file_orig := []\<rparr>"

text \<open>An empty stratigraphy table.\<close>

definition no_strat_input :: tool_input where
  "no_strat_input = demo_input\<lparr>strat_table := []\<rparr>"

text \<open>A second well point with the id of the first, on the same line.\<close>

definition two_wells :: "wwpt_near_row list" where
  "two_wells =
     [\<lparr>near_shape = (1000, 50), near_wellid = NumericId 7, near_etid = ''A'',
       NEAR_X = 1000, NEAR_Y = 0, NEAR_DIST = 50, OnLine_DIST = 1000\<rparr>,
      \<lparr>near_shape = (400, -20), near_wellid = NumericId 7, near_etid = ''A'',
       NEAR_X = 400, NEAR_Y = 0, NEAR_DIST = 20, OnLine_DIST = 400\<rparr>]"

text \<open>
  Ten stratigraphy intervals of well 7, the fifth without a bottom elevation.
\<close>

definition skip_strat_table :: "strat_row list" where
  "skip_strat_table =
     map (\<lambda>k. \<lparr>strat_oid = k, strat_wellid = NumericId 7,
                elev_top = Some (300 - 10 * real_of_int k),
                elev_bot = (if k = 5 then None else Some (290 - 10 * real_of_int k))\<rparr>)
       [1, 2, 3, 4, 5, 6, 7, 8, 9, 10]"

definition skip_input :: tool_input where
  "skip_input = demo_input\<lparr>strat_table := skip_strat_table\<rparr>"

text \<open>A well of line A at a given place.\<close>

definition well_at :: "point \<Rightarrow> wwpt_row" where
  "well_at p = \<lparr>wwpt_shape = p, wwpt_wellid = NumericId 7, wwpt_etid = ''A''\<rparr>"

text \<open>Two 2D sticks, the one of well 9 written before the one of well 7.\<close>

definition stick :: "int \<Rightarrow> real \<Rightarrow> line2d_row" where
  "stick n x =
     \<lparr>l2_geometry = [(x, 300), (x, 280)], l2_wellid = NumericId n, l2_etid = ''A'',
      l2_x_coord = 0, l2_y_coord = 0, l2_z_top = 300, l2_z_bot = 280, l2_strat_oid = n,
      l2_distance = 0, l2_pct_dist = 0\<rparr>"

definition two_sticks :: workspace where
  "two_sticks = empty_workspace\<lparr>lixpys_unloc_2d_line := [stick 9 20, stick 7 10]\<rparr>"

section \<open>Properties\<close>

subsection \<open>Stages and messages\<close>

lemmas stage_defs = multipart_check_def buffer_check_def ve_check_def count_check_def
  reserved_check_def raster_name_check_def printerror_def printit_def

lemma run_stages_append:
  "run_stages (fs @ gs) w =
     (case run_stages fs w of (w', Some e) \<Rightarrow> (w', Some e) | (w', None) \<Rightarrow> run_stages gs w')"
  by (induction fs arbitrary: w) (auto split: prod.splits option.splits)

subsection \<open>Non-positive parameters\<close>

text \<open>
  C6: a buffer distance or a vertical exaggeration that is not positive aborts the run
  with \<open>SystemExit\<close> before any line is extended and before any geometry is written:
  apart from its messages the output geodatabase is untouched, and the last message is
  the error that ended the run. The raster profile script has no buffer distance; there
  a non-positive vertical exaggeration ends the run in the data QC, with no profile
  written.
\<close>

theorem nonpositive_parameters_abort:
  "(buffer_dist inp \<le> 0 \<or> vertical_exaggeration inp \<le> 0 \<longrightarrow>
      snd (CreateLixpys_unloc inp) = Some SystemExit \<and>
      (fst (CreateLixpys_unloc inp))\<lparr>messages := []\<rparr> = empty_workspace \<and>
      (\<exists>m \<in> {Buffer_not_positive, VE_not_positive}.
         last (messages (fst (CreateLixpys_unloc inp))) = (AddError, m))) \<and>
   (rp_vertical_exaggeration rinp \<le> 0 \<longrightarrow>
      snd (RasterProfiles rinp) = Some SystemExit \<and>
      profiles_2d_files (fst (RasterProfiles rinp)) = [] \<and>
      (\<exists>m \<in> {Reserved_field, VE_not_positive}.
         last (messages (fst (RasterProfiles rinp))) = (AddError, m)))"
  by (auto simp: CreateLixpys_unloc_def preflight_def RasterProfiles_def rp_data_qc_def
      stage_defs empty_workspace_def empty_rp_workspace_def)

theorem nonpositive_parameters_abort_witness:
  "buffer_dist (demo_input\<lparr>buffer_dist := 0\<rparr>) \<le> 0 \<and>
   snd (CreateLixpys_unloc (demo_input\<lparr>buffer_dist := 0\<rparr>)) = Some SystemExit \<and>
   rp_vertical_exaggeration (demo_raster_input\<lparr>rp_vertical_exaggeration := - 5\<rparr>) \<le> 0 \<and>
   snd (RasterProfiles (demo_raster_input\<lparr>rp_vertical_exaggeration := - 5\<rparr>))
     = Some SystemExit"
  using nonpositive_parameters_abort
    [of "demo_input\<lparr>buffer_dist := 0\<rparr>"
        "demo_raster_input\<lparr>rp_vertical_exaggeration := - 5\<rparr>"]
  by simp

subsection \<open>The extended line\<close>

lemma extend_line_Inr:
  assumes "2 \<le> length vs"
  shows "extend_line bd vs =
     Inr (vs[0 := pointFromAngleAndDistance (vs ! 0)
                  (fst (angleAndDistanceTo (vs ! 1) (vs ! 0))) (real_of_int bd),
             length vs - 1 :=
                pointFromAngleAndDistance (vs ! (length vs - 1))
                  (fst (angleAndDistanceTo (vs ! (length vs - 2)) (vs ! (length vs - 1))))
                  (real_of_int bd)])"
proof -
  from assms obtain a b rest where vs: "vs = a # b # rest"
    by (cases vs; cases "tl vs") auto
  show ?thesis
    unfolding vs by (simp only: extend_line.simps Let_def)
qed

text \<open>
  C3: for a line of at least two vertices and a positive buffer distance, cell 13
  returns a line of the same length whose first vertex is the point projected from
  vertex 0 along the bearing from vertex 1 to vertex 0 at the buffer distance, whose
  last vertex is the point projected from the last vertex along the bearing from the
  one before it, and whose interior vertices are those of the input.
\<close>

theorem extend_line_replaces_ends:
  assumes "2 \<le> length vs" and "0 < bd"
  shows "\<exists>ext. extend_line bd vs = Inr ext \<and> length ext = length vs \<and>
     ext ! 0 = pointFromAngleAndDistance (vs ! 0)
                 (fst (angleAndDistanceTo (vs ! 1) (vs ! 0))) (real_of_int bd) \<and>
     ext ! (length vs - 1) =
       pointFromAngleAndDistance (vs ! (length vs - 1))
         (fst (angleAndDistanceTo (vs ! (length vs - 2)) (vs ! (length vs - 1))))
         (real_of_int bd) \<and>
     (\<forall>i. 0 < i \<and> i < length vs - 1 \<longrightarrow> ext ! i = vs ! i)"
proof -
  have "0 < length vs" and "length vs - 1 < length vs" and "0 \<noteq> length vs - 1"
    using assms(1) by auto
  then show ?thesis
    unfolding extend_line_Inr [OF assms(1)]
    by (simp add: nth_list_update)
qed

theorem extend_line_replaces_ends_witness:
  "2 \<le> length [(0, 0), (400, 300), (1000, 0 :: real)] \<and> (0 :: int) < 500 \<and>
   (\<exists>ext. extend_line 500 [(0, 0), (400, 300), (1000, 0)] = Inr ext \<and> length ext = 3 \<and>
      ext ! 1 = (400, 300))"
proof -
  have h1: "2 \<le> length [(0, 0), (400, 300), (1000, 0 :: real)]" by simp
  have h2: "(0 :: int) < 500" by simp
  from extend_line_replaces_ends [OF h1 h2]
  obtain ext where "extend_line 500 [(0, 0), (400, 300), (1000, 0)] = Inr ext"
    and "length ext = 3" and "ext ! 1 = (400, 300)"
    by auto
  with h1 h2 show ?thesis by blast
qed

subsection \<open>The stratigraphy loop\<close>

lemma wwpt_cursor_last:
  "wwpt_cursor bd ve wells (i, vars) =
     (i + length wells, if wells = [] then vars else Some (read_well bd ve (last wells)))"
  by (induction wells arbitrary: i vars) auto

lemma strat_record_drawn:
  assumes "elev_top row = Some zt" and "elev_bot row = Some zb"
    and "where_clause (strat_wellid row) (wwpt_unloc_merge w) \<noteq> []"
  shows "strat_record bd ve row w =
     insert_rows row zt zb
       (read_well bd ve (last (where_clause (strat_wellid row) (wwpt_unloc_merge w)))) w"
  using assms by (simp add: strat_record_def wwpt_cursor_last)

text \<open>
  C10: when the well id of a stratigraphy record with both elevations selects two or
  more well points of the merged file, the record still adds exactly one 3D row and one
  2D row, and the coordinates, the measure, the distance from the line and the
  cross-section id of both are those of the last selected well point in cursor order.
\<close>

theorem last_matching_well_point_wins:
  assumes "elev_top row = Some zt" and "elev_bot row = Some zb"
    and "where_clause (strat_wellid row) (wwpt_unloc_merge w) = wells"
    and "2 \<le> length wells"
  shows "let well = last wells; x = fst (near_shape well); y = snd (near_shape well);
             x_2d = OnLine_DIST well / 0.3048 / real_of_int ve;
             w' = strat_record bd ve row w
         in lixpys_unloc_3d w' = lixpys_unloc_3d w @
              [\<lparr>l3_geometry = [(x, y, zt), (x, y, zb)], l3_wellid = strat_wellid row,
                l3_etid = near_etid well, l3_x_coord = x, l3_y_coord = y,
                l3_z_top = zt, l3_z_bot = zb, l3_strat_oid = strat_oid row\<rparr>] \<and>
            lixpys_unloc_2d_line w' = lixpys_unloc_2d_line w @
              [\<lparr>l2_geometry = [(x_2d, zt), (x_2d, zb)], l2_wellid = strat_wellid row,
                l2_etid = near_etid well, l2_x_coord = x, l2_y_coord = y,
                l2_z_top = zt, l2_z_bot = zb, l2_strat_oid = strat_oid row,
                l2_distance = NEAR_DIST well,
                l2_pct_dist = NEAR_DIST well / real_of_int bd * 200\<rparr>]"
proof -
  from assms have ne: "where_clause (strat_wellid row) (wwpt_unloc_merge w) \<noteq> []"
    by auto
  show ?thesis
    unfolding strat_record_drawn [OF assms(1,2) ne] assms(3)
    by (simp add: insert_rows_def read_well_def Let_def)
qed

theorem last_matching_well_point_wins_witness:
  "elev_top demo_strat_row = Some 300 \<and> elev_bot demo_strat_row = Some 280 \<and>
   where_clause (strat_wellid demo_strat_row)
     (wwpt_unloc_merge (empty_workspace\<lparr>wwpt_unloc_merge := two_wells\<rparr>)) = two_wells \<and>
   2 \<le> length two_wells \<and>
   map l2_geometry (lixpys_unloc_2d_line
      (strat_record 500 50 demo_strat_row (empty_workspace\<lparr>wwpt_unloc_merge := two_wells\<rparr>)))
     = [[(400 / 0.3048 / 50, 300), (400 / 0.3048 / 50, 280)]]"
proof -
  let ?w = "empty_workspace\<lparr>wwpt_unloc_merge := two_wells\<rparr>"
  have h1: "elev_top demo_strat_row = Some 300" and h2: "elev_bot demo_strat_row = Some 280"
    by (simp_all add: demo_strat_row_def)
  have h3: "where_clause (strat_wellid demo_strat_row) (wwpt_unloc_merge ?w) = two_wells"
    by (simp add: where_clause_def demo_strat_row_def two_wells_def)
  have h4: "2 \<le> length two_wells"
    by (simp add: two_wells_def)
  from last_matching_well_point_wins [OF h1 h2 h3 h4, of 50 500]
  have "map l2_geometry (lixpys_unloc_2d_line (strat_record 500 50 demo_strat_row ?w))
     = [[(400 / 0.3048 / 50, 300), (400 / 0.3048 / 50, 280)]]"
    by (simp add: Let_def two_wells_def empty_workspace_def)
  with h1 h2 h3 h4 show ?thesis by blast
qed

subsection \<open>Multipart lines\<close>

text \<open>
  A multipart line does not halt either script. With one two-part line the well stick
  script passes all of its checks with a single error message, runs to its end and
  writes a polygon; the raster profile script runs to its end and writes a profile.
\<close>

theorem multipart_input_not_halted:
  "list_ex isMultipart (xsln_file_orig multipart_input) \<and>
   run_stages (preflight multipart_input) empty_workspace =
     (empty_workspace\<lparr>messages := [(AddError, Multipart_warning)]\<rparr>, None) \<and>
   snd (CreateLixpys_unloc multipart_input) = None \<and>
   length (lixpys_unloc_2d_poly (fst (CreateLixpys_unloc multipart_input))) = 1 \<and>
   list_ex isMultipart (rp_xsln_file_orig multipart_raster_input) \<and>
   snd (RasterProfiles multipart_raster_input) = None \<and>
   map (length \<circ> snd) (profiles_2d_files (fst (RasterProfiles multipart_raster_input))) = [1]"
  by (simp add: multipart_input_def multipart_xsln_def demo_input_def demo_xsln_def
      demo_strat_row_def isMultipart_def
      CreateLixpys_unloc_def preflight_def processing_def stage_defs reconcile_def
      orphan_warnings_def type_check_def
      strat_wellid_list_def wwpt_wellid_list_def wwpt_etid_list_def xsln_etid_list_def
      listprint_def warn_if_any_def empty_workspace_def
      merge_wwpt_def strat_loop_def buffer_and_sort_def near_row_def strat_record_def
      where_clause_def nomatch_summary_def insert_rows_def Sort_def Let_def
      multipart_raster_input_def demo_raster_input_def RasterProfiles_def rp_data_qc_def
      reserved_fields_def isalnum_def isalnum_char_def empty_rp_workspace_def
      raster_rows_def insert_profiles_def
      split: prod.splits)

text \<open>
  C5, as the code has it: when a line of the input is multipart, the run adds one error
  message ("Continuing may result in errors") before anything else and carries on with
  all its remaining checks and stages; a multipart line is reported, not fatal.
\<close>

theorem multipart_reported_not_fatal:
  "(list_ex isMultipart (xsln_file_orig inp) \<longrightarrow>
      CreateLixpys_unloc inp =
        run_stages (tl (preflight inp) @ processing inp)
          (printerror Multipart_warning empty_workspace)) \<and>
   (list_ex isMultipart (rp_xsln_file_orig rinp) \<longrightarrow>
      RasterProfiles rinp =
        run_stages (drop 2 (rp_data_qc rinp) @ [raster_profiles rinp (rasters_list rinp)])
          (printerror Multipart_warning empty_rp_workspace))"
  by (auto simp: CreateLixpys_unloc_def preflight_def RasterProfiles_def rp_data_qc_def
      multipart_check_def count_check_def)

theorem multipart_reported_not_fatal_witness:
  "list_ex isMultipart (xsln_file_orig multipart_input) \<and>
   CreateLixpys_unloc multipart_input =
     run_stages (tl (preflight multipart_input) @ processing multipart_input)
       (printerror Multipart_warning empty_workspace) \<and>
   list_ex isMultipart (rp_xsln_file_orig multipart_raster_input) \<and>
   RasterProfiles multipart_raster_input =
     run_stages (drop 2 (rp_data_qc multipart_raster_input) @
         [raster_profiles multipart_raster_input (rasters_list multipart_raster_input)])
       (printerror Multipart_warning empty_rp_workspace)"
proof -
  have h1: "list_ex isMultipart (xsln_file_orig multipart_input)"
    by (simp add: multipart_input_def multipart_xsln_def isMultipart_def)
  have h2: "list_ex isMultipart (rp_xsln_file_orig multipart_raster_input)"
    by (simp add: multipart_raster_input_def multipart_xsln_def isMultipart_def)
  from multipart_reported_not_fatal [of multipart_input multipart_raster_input] h1 h2
  show ?thesis by blast
qed

subsection \<open>Empty inputs\<close>

lemma warn_if_any_messages: "set (messages w) \<subseteq> set (messages (warn_if_any l m w))"
  by (auto simp: warn_if_any_def printit_def)

lemma orphan_warnings_messages: "set (messages w) \<subseteq> set (messages (orphan_warnings inp w))"
  unfolding orphan_warnings_def Let_def
  by (meson warn_if_any_messages subset_trans)

lemma reconcile_messages: "set (messages w) \<subseteq> set (messages (fst (reconcile inp w)))"
  using orphan_warnings_messages [of w inp]
  by (auto simp: reconcile_def type_check_def printerror_def split: list.splits)

lemma extend_lines_messages: "messages (fst (extend_lines bd xsln w)) = messages w"
  by (induction xsln arbitrary: w) (auto split: sum.splits)

lemma near_analysis_messages: "messages (fst (near_analysis bd wwpt lines w)) = messages w"
  by (induction lines arbitrary: w) (auto simp: Let_def)

lemma strat_record_messages: "set (messages w) \<subseteq> set (messages (strat_record bd ve row w))"
  by (auto simp: strat_record_def printit_def insert_rows_def Let_def
      split: option.splits prod.splits)

lemma strat_records_messages: "set (messages w) \<subseteq> set (messages (strat_records bd ve rows w))"
proof (induction rows arbitrary: w)
  case Nil
  show ?case by simp
next
  case (Cons row rows)
  from strat_record_messages [of w bd ve row] Cons [of "strat_record bd ve row w"]
  show ?case by auto
qed

lemma strat_loop_messages: "set (messages w) \<subseteq> set (messages (fst (strat_loop inp w)))"
  using strat_records_messages [of w "buffer_dist inp" "vertical_exaggeration inp" "strat_table inp"]
  by (auto simp: strat_loop_def nomatch_summary_def printit_def)

lemma run_stages_messages:
  "(\<And>f w. f \<in> set fs \<Longrightarrow> set (messages w) \<subseteq> set (messages (fst (f w)))) \<Longrightarrow>
   set (messages w) \<subseteq> set (messages (fst (run_stages fs w)))"
proof (induction fs arbitrary: w)
  case Nil
  show ?case by simp
next
  case (Cons f fs)
  have step: "set (messages w) \<subseteq> set (messages (fst (f w)))"
    using Cons.prems by simp
  have rest: "set (messages (fst (f w))) \<subseteq> set (messages (fst (run_stages fs (fst (f w)))))"
    using Cons by simp
  show ?case
  proof (cases "snd (f w)")
    case None
    then have "run_stages (f # fs) w = run_stages fs (fst (f w))"
      by (cases "f w") simp
    with step rest show ?thesis by auto
  next
    case (Some e)
    then have "run_stages (f # fs) w = f w"
      by (cases "f w") simp
    with step show ?thesis by simp
  qed
qed

lemma processing_messages:
  "f \<in> set (processing inp) \<Longrightarrow> set (messages w) \<subseteq> set (messages (fst (f w)))"
  using strat_loop_messages [of w inp]
  by (auto simp: processing_def extend_lines_messages near_analysis_messages merge_wwpt_def
      buffer_and_sort_def Let_def split: list.splits)

lemma after_counts_messages:
  "set (messages w) \<subseteq> set (messages (fst (run_stages (reconcile inp # processing inp) w)))"
proof (rule run_stages_messages)
  fix f and w' :: workspace
  assume "f \<in> set (reconcile inp # processing inp)"
  then consider "f = reconcile inp" | "f \<in> set (processing inp)" by auto
  then show "set (messages w') \<subseteq> set (messages (fst (f w')))"
    using reconcile_messages [of w' inp] processing_messages [of f inp w'] by cases auto
qed

lemma stage_case_id:
  "(case p of (w', None) \<Rightarrow> (w', None) | (w', Some e) \<Rightarrow> (w', Some e)) = p"
  by (cases p; cases "snd p") auto

lemma raster_profiles_result:
  "snd (raster_profiles rinp rs w) = None \<and>
   messages (fst (raster_profiles rinp rs w)) = messages w"
  by (induction rs arbitrary: w) (auto simp: Let_def)

text \<open>
  An empty cross-section line collection does not halt either script before
  processing. The well stick script passes every check of cells 5 to 7 with two
  messages and starts processing; the raster profile script runs to its end with one
  message and writes an empty profile file.
\<close>

theorem no_xsln_not_halted:
  "xsln_file_orig no_xsln_input = [] \<and>
   run_stages (preflight no_xsln_input) empty_workspace =
     (empty_workspace\<lparr>messages := [(AddError, Xsln_file_empty),
        (AddMessage, Wwpt_etid_without_xsln 1 [''A''])]\<rparr>, None) \<and>
   rp_xsln_file_orig no_xsln_raster_input = [] \<and>
   RasterProfiles no_xsln_raster_input =
     (\<lparr>messages = [(AddError, Xsln_file_empty)],
       profiles_2d_files = [(Profiles2d ''topo'' 50, [])]\<rparr>, None)"
  by (simp add: no_xsln_input_def demo_input_def demo_strat_row_def
      preflight_def stage_defs reconcile_def
      orphan_warnings_def type_check_def
      strat_wellid_list_def wwpt_wellid_list_def wwpt_etid_list_def xsln_etid_list_def
      listprint_def warn_if_any_def empty_workspace_def Let_def
      no_xsln_raster_input_def demo_raster_input_def RasterProfiles_def rp_data_qc_def
      reserved_fields_def isalnum_def isalnum_char_def empty_rp_workspace_def
      raster_rows_def insert_profiles_def)

text \<open>
  C7, as the code has it: an empty stratigraphy table, well point file or cross-section
  line file is reported by an error message ("... is empty. Tool will not run
  correctly.") before any processing, and the check that finds it does not halt the
  run. With valid parameters the message of every empty input is among the messages of
  the well stick run; in the raster profile run it is the first message.
\<close>

theorem empty_input_reported_not_fatal:
  "snd (count_check m rows w) = None \<and>
   (0 < buffer_dist inp \<and> 0 < vertical_exaggeration inp \<longrightarrow>
      (strat_table inp = [] \<longrightarrow>
         (AddError, Strat_table_empty) \<in> set (messages (fst (CreateLixpys_unloc inp)))) \<and>
      (wwpt_file_orig inp = [] \<longrightarrow>
         (AddError, Wwpt_file_empty) \<in> set (messages (fst (CreateLixpys_unloc inp)))) \<and>
      (xsln_file_orig inp = [] \<longrightarrow>
         (AddError, Xsln_file_empty) \<in> set (messages (fst (CreateLixpys_unloc inp))))) \<and>
   (rp_xsln_file_orig rinp = [] \<longrightarrow>
      hd (messages (fst (RasterProfiles rinp))) = (AddError, Xsln_file_empty))"
proof -
  let ?rest = "reconcile inp # processing inp"
  let ?w0 = "fst (multipart_check (xsln_file_orig inp) empty_workspace)"
  let ?w1 = "fst (count_check Strat_table_empty (strat_table inp) ?w0)"
  let ?w2 = "fst (count_check Wwpt_file_empty (wwpt_file_orig inp) ?w1)"
  let ?w3 = "fst (count_check Xsln_file_empty (xsln_file_orig inp) ?w2)"
  have keep: "\<And>x. x \<in> set (messages ?w3) \<Longrightarrow>
      x \<in> set (messages (fst (run_stages ?rest ?w3)))"
    using after_counts_messages by blast
  have a: "snd (count_check m rows w) = None"
    by (simp add: count_check_def)
  have b: "(strat_table inp = [] \<longrightarrow>
         (AddError, Strat_table_empty) \<in> set (messages (fst (CreateLixpys_unloc inp)))) \<and>
      (wwpt_file_orig inp = [] \<longrightarrow>
         (AddError, Wwpt_file_empty) \<in> set (messages (fst (CreateLixpys_unloc inp)))) \<and>
      (xsln_file_orig inp = [] \<longrightarrow>
         (AddError, Xsln_file_empty) \<in> set (messages (fst (CreateLixpys_unloc inp))))"
    if ok: "0 < buffer_dist inp" "0 < vertical_exaggeration inp"
  proof -
    have run: "CreateLixpys_unloc inp = run_stages ?rest ?w3"
      using ok by (simp add: CreateLixpys_unloc_def preflight_def stage_defs)
    have "strat_table inp = [] \<Longrightarrow> (AddError, Strat_table_empty) \<in> set (messages ?w3)"
      by (simp add: stage_defs)
    moreover have "wwpt_file_orig inp = [] \<Longrightarrow> (AddError, Wwpt_file_empty) \<in> set (messages ?w3)"
      by (simp add: stage_defs)
    moreover have "xsln_file_orig inp = [] \<Longrightarrow> (AddError, Xsln_file_empty) \<in> set (messages ?w3)"
      by (simp add: stage_defs)
    ultimately show ?thesis
      unfolding run using keep by blast
  qed
  have c: "hd (messages (fst (RasterProfiles rinp))) = (AddError, Xsln_file_empty)"
    if "rp_xsln_file_orig rinp = []"
    using that
    by (auto simp: RasterProfiles_def rp_data_qc_def stage_defs empty_rp_workspace_def
        stage_case_id raster_profiles_result)
  from a b c show ?thesis by blast
qed

theorem empty_input_reported_not_fatal_witness:
  "0 < buffer_dist no_strat_input \<and> 0 < vertical_exaggeration no_strat_input \<and>
   strat_table no_strat_input = [] \<and>
   (AddError, Strat_table_empty) \<in> set (messages (fst (CreateLixpys_unloc no_strat_input))) \<and>
   0 < buffer_dist no_xsln_input \<and> 0 < vertical_exaggeration no_xsln_input \<and>
   xsln_file_orig no_xsln_input = [] \<and>
   (AddError, Xsln_file_empty) \<in> set (messages (fst (CreateLixpys_unloc no_xsln_input))) \<and>
   rp_xsln_file_orig no_xsln_raster_input = [] \<and>
   hd (messages (fst (RasterProfiles no_xsln_raster_input))) = (AddError, Xsln_file_empty)"
proof -
  have h1: "0 < buffer_dist no_strat_input \<and> 0 < vertical_exaggeration no_strat_input \<and>
      strat_table no_strat_input = []"
    by (simp add: no_strat_input_def demo_input_def)
  have h2: "0 < buffer_dist no_xsln_input \<and> 0 < vertical_exaggeration no_xsln_input \<and>
      xsln_file_orig no_xsln_input = []"
    by (simp add: no_xsln_input_def demo_input_def)
  have h3: "rp_xsln_file_orig no_xsln_raster_input = []"
    by (simp add: no_xsln_raster_input_def)
  from h1 h2 h3
    empty_input_reported_not_fatal [of Xsln_file_empty "[] :: nat list" empty_workspace
      no_strat_input no_xsln_raster_input]
    empty_input_reported_not_fatal [of Xsln_file_empty "[] :: nat list" empty_workspace
      no_xsln_input no_xsln_raster_input]
  show ?thesis by blast
qed

subsection \<open>Skipped and unmatched stratigraphy records\<close>

lemma strat_record_skipped:
  "elev_top row = None \<or> elev_bot row = None \<Longrightarrow>
   strat_record bd ve row w =
     printit (if elev_top row = None then Skipping_no_elev_top (strat_oid row)
              else Skipping_no_elev_bot (strat_oid row)) w"
  by (auto simp: strat_record_def split: option.splits)

lemma strat_record_unmatched:
  "elev_top row \<noteq> None \<Longrightarrow> elev_bot row \<noteq> None \<Longrightarrow>
   where_clause (strat_wellid row) (wwpt_unloc_merge w) = [] \<Longrightarrow>
   strat_record bd ve row w = w\<lparr>nomatch_list := nomatch_list w @ [strat_wellid row]\<rparr>"
  by (auto simp: strat_record_def)

lemma strat_record_cases:
  obtains (skipped) "elev_top row = None \<or> elev_bot row = None"
  | (unmatched) zt zb where "elev_top row = Some zt" "elev_bot row = Some zb"
      "where_clause (strat_wellid row) (wwpt_unloc_merge w) = []"
  | (drawn) zt zb where "elev_top row = Some zt" "elev_bot row = Some zb"
      "where_clause (strat_wellid row) (wwpt_unloc_merge w) \<noteq> []"
  by (cases "elev_top row"; cases "elev_bot row";
      cases "where_clause (strat_wellid row) (wwpt_unloc_merge w) = []") auto

lemma strat_record_merge: "wwpt_unloc_merge (strat_record bd ve row w) = wwpt_unloc_merge w"
  by (rule strat_record_cases [where row = row and w = w])
    (auto simp: strat_record_skipped strat_record_unmatched strat_record_drawn printit_def
      insert_rows_def Let_def)

lemma strat_records_merge: "wwpt_unloc_merge (strat_records bd ve rows w) = wwpt_unloc_merge w"
  by (induction rows arbitrary: w) (auto simp: strat_record_merge)

lemma strat_records_messages_eq:
  "messages (strat_records bd ve rows w) =
     messages w @
     map (\<lambda>r. (AddMessage, if elev_top r = None then Skipping_no_elev_top (strat_oid r)
                           else Skipping_no_elev_bot (strat_oid r)))
       (filter (\<lambda>r. elev_top r = None \<or> elev_bot r = None) rows)"
proof (induction rows arbitrary: w)
  case Nil
  show ?case by simp
next
  case (Cons row rows)
  show ?case
    by (rule strat_record_cases [where row = row and w = w])
      (auto simp: Cons strat_record_skipped strat_record_unmatched strat_record_drawn
        printit_def insert_rows_def Let_def)
qed

lemma strat_records_nomatch:
  "nomatch_list (strat_records bd ve rows w) =
     nomatch_list w @
     map strat_wellid
       (filter (\<lambda>r. elev_top r \<noteq> None \<and> elev_bot r \<noteq> None \<and>
                    where_clause (strat_wellid r) (wwpt_unloc_merge w) = []) rows)"
proof (induction rows arbitrary: w)
  case Nil
  show ?case by simp
next
  case (Cons row rows)
  show ?case
    by (rule strat_record_cases [where row = row and w = w])
      (auto simp: Cons strat_record_merge strat_record_skipped strat_record_unmatched
        strat_record_drawn printit_def insert_rows_def Let_def)
qed

lemma strat_records_2d:
  "map l2_strat_oid (lixpys_unloc_2d_line (strat_records bd ve rows w)) =
     map l2_strat_oid (lixpys_unloc_2d_line w) @
     map strat_oid
       (filter (\<lambda>r. elev_top r \<noteq> None \<and> elev_bot r \<noteq> None \<and>
                    where_clause (strat_wellid r) (wwpt_unloc_merge w) \<noteq> []) rows)"
proof (induction rows arbitrary: w)
  case Nil
  show ?case by simp
next
  case (Cons row rows)
  show ?case
    by (rule strat_record_cases [where row = row and w = w])
      (auto simp: Cons strat_record_merge strat_record_skipped strat_record_unmatched
        strat_record_drawn printit_def insert_rows_def Let_def)
qed

lemma strat_records_3d:
  "map l3_strat_oid (lixpys_unloc_3d (strat_records bd ve rows w)) =
     map l3_strat_oid (lixpys_unloc_3d w) @
     map strat_oid
       (filter (\<lambda>r. elev_top r \<noteq> None \<and> elev_bot r \<noteq> None \<and>
                    where_clause (strat_wellid r) (wwpt_unloc_merge w) \<noteq> []) rows)"
proof (induction rows arbitrary: w)
  case Nil
  show ?case by simp
next
  case (Cons row rows)
  show ?case
    by (rule strat_record_cases [where row = row and w = w])
      (auto simp: Cons strat_record_merge strat_record_skipped strat_record_unmatched
        strat_record_drawn printit_def insert_rows_def Let_def)
qed

lemma three_way_count:
  "length rows =
     length (filter (\<lambda>r. elev_top r = None \<or> elev_bot r = None) rows) +
     length (filter (\<lambda>r. elev_top r \<noteq> None \<and> elev_bot r \<noteq> None \<and> P r) rows) +
     length (filter (\<lambda>r. elev_top r \<noteq> None \<and> elev_bot r \<noteq> None \<and> \<not> P r) rows)"
  by (induction rows) auto


lemma near_row_fields:
  "near_wellid (near_row bd g well) = wwpt_wellid well"
  "near_etid (near_row bd g well) = wwpt_etid well"
  "near_shape (near_row bd g well) = wwpt_shape well"
  by (simp_all add: near_row_def Let_def split: prod.splits)

lemma strat_records_2d_length:
  "length (lixpys_unloc_2d_line (strat_records bd ve rows w)) =
     length (lixpys_unloc_2d_line w) +
     length (filter (\<lambda>r. elev_top r \<noteq> None \<and> elev_bot r \<noteq> None \<and>
                    where_clause (strat_wellid r) (wwpt_unloc_merge w) \<noteq> []) rows)"
  using arg_cong [OF strat_records_2d [of bd ve rows w], of length] by simp

lemma buffer_and_sort_keeps:
  "snd (buffer_and_sort inp w) = None"
  "messages (fst (buffer_and_sort inp w)) = messages w"
  "nomatch_list (fst (buffer_and_sort inp w)) = nomatch_list w"
  "lixpys_unloc_2d_line (fst (buffer_and_sort inp w)) = lixpys_unloc_2d_line w"
  by (simp_all add: buffer_and_sort_def Let_def)

lemmas qc_defs = CreateLixpys_unloc_def preflight_def processing_def stage_defs
  reconcile_def orphan_warnings_def type_check_def strat_wellid_list_def
  wwpt_wellid_list_def wwpt_etid_list_def xsln_etid_list_def listprint_def
  warn_if_any_def empty_workspace_def merge_wwpt_def isMultipart_def

text \<open>
  Ten intervals, one of them without a bottom elevation: the run writes nine 2D lines,
  but it keeps no count of the skipped record. The list of unmatched well ids, the only
  thing the run counts, is empty, and the only message is the one that names the
  record.
\<close>

theorem null_elevation_not_counted:
  "length (strat_table skip_input) = 10 \<and>
   length (filter (\<lambda>r. elev_bot r = None) (strat_table skip_input)) = 1 \<and>
   snd (CreateLixpys_unloc skip_input) = None \<and>
   length (lixpys_unloc_2d_line (fst (CreateLixpys_unloc skip_input))) = 9 \<and>
   nomatch_list (fst (CreateLixpys_unloc skip_input)) = [] \<and>
   messages (fst (CreateLixpys_unloc skip_input)) = [(AddMessage, Skipping_no_elev_bot 5)]"
proof -
  have run: "CreateLixpys_unloc skip_input =
      buffer_and_sort skip_input
        (nomatch_summary (strat_records 500 50 skip_strat_table
           (empty_workspace
              \<lparr>xsln_temp := [(''A'', projr (extend_line 500 [(0, 0), (1000, 0)]))],
               unloc_wwpt_by_xs := [(''wwpt_A'',
                 [near_row 500 (projr (extend_line 500 [(0, 0), (1000, 0)]))
                    \<lparr>wwpt_shape = (1000, 50), wwpt_wellid = NumericId 7,
                      wwpt_etid = ''A''\<rparr>])],
               wwpt_unloc_merge :=
                 [near_row 500 (projr (extend_line 500 [(0, 0), (1000, 0)]))
                    \<lparr>wwpt_shape = (1000, 50), wwpt_wellid = NumericId 7,
                      wwpt_etid = ''A''\<rparr>]\<rparr>)))"
    by (simp add: skip_input_def skip_strat_table_def demo_input_def demo_xsln_def qc_defs
        strat_loop_def stage_case_id Let_def del: strat_records.simps)
  have table: "length (strat_table skip_input) = 10 \<and>
      length (filter (\<lambda>r. elev_bot r = None) (strat_table skip_input)) = 1"
    by (simp add: skip_input_def skip_strat_table_def)
  have rest: "snd (CreateLixpys_unloc skip_input) = None \<and>
      length (lixpys_unloc_2d_line (fst (CreateLixpys_unloc skip_input))) = 9 \<and>
      nomatch_list (fst (CreateLixpys_unloc skip_input)) = [] \<and>
      messages (fst (CreateLixpys_unloc skip_input)) = [(AddMessage, Skipping_no_elev_bot 5)]"
    unfolding run
    by (simp add: buffer_and_sort_keeps nomatch_summary_def strat_records_nomatch
        strat_records_messages_eq strat_records_2d_length where_clause_def near_row_fields
        skip_strat_table_def empty_workspace_def printit_def
        del: strat_records.simps)
  from table rest show ?thesis by blast
qed


text \<open>
  C4, as the code has it: a stratigraphy interval without \<open>elev_top\<close> or \<open>elev_bot\<close>
  is skipped, not defaulted, and reported by one message that names the record. The run
  counts only the records with both elevations whose well id selects no well point: their
  well ids are collected and their number is reported once, after the loop. Every record
  is drawn (one 3D and one 2D line), reported as skipped, or counted as unmatched.
\<close>

theorem skipped_reported_unmatched_counted:
  "let rows = strat_table inp;
       w' = fst (strat_loop inp w);
       skipped = filter (\<lambda>r. elev_top r = None \<or> elev_bot r = None) rows;
       unmatched = filter (\<lambda>r. elev_top r \<noteq> None \<and> elev_bot r \<noteq> None \<and>
                     where_clause (strat_wellid r) (wwpt_unloc_merge w) = []) rows;
       drawn = filter (\<lambda>r. elev_top r \<noteq> None \<and> elev_bot r \<noteq> None \<and>
                     where_clause (strat_wellid r) (wwpt_unloc_merge w) \<noteq> []) rows
   in map l2_strat_oid (lixpys_unloc_2d_line w') =
        map l2_strat_oid (lixpys_unloc_2d_line w) @ map strat_oid drawn \<and>
      map l3_strat_oid (lixpys_unloc_3d w') =
        map l3_strat_oid (lixpys_unloc_3d w) @ map strat_oid drawn \<and>
      nomatch_list w' = nomatch_list w @ map strat_wellid unmatched \<and>
      messages w' =
        messages w @
        map (\<lambda>r. (AddMessage, if elev_top r = None then Skipping_no_elev_top (strat_oid r)
                              else Skipping_no_elev_bot (strat_oid r))) skipped @
        (if nomatch_list w' = [] then []
         else [(AddMessage, No_matching_well_point (length (nomatch_list w')))]) \<and>
      length rows = length skipped + length unmatched + length drawn"
proof -
  have count: "length (strat_table inp) =
      length (filter (\<lambda>r. elev_top r = None \<or> elev_bot r = None) (strat_table inp)) +
      length (filter (\<lambda>r. elev_top r \<noteq> None \<and> elev_bot r \<noteq> None \<and>
                     where_clause (strat_wellid r) (wwpt_unloc_merge w) = []) (strat_table inp)) +
      length (filter (\<lambda>r. elev_top r \<noteq> None \<and> elev_bot r \<noteq> None \<and>
                     where_clause (strat_wellid r) (wwpt_unloc_merge w) \<noteq> []) (strat_table inp))"
    using three_way_count
      [of "strat_table inp" "\<lambda>r. where_clause (strat_wellid r) (wwpt_unloc_merge w) = []"]
    by simp
  show ?thesis
    unfolding Let_def
    using count
    by (simp add: strat_loop_def nomatch_summary_def printit_def strat_records_2d
        strat_records_3d strat_records_nomatch strat_records_messages_eq)
qed

subsection \<open>Drawing coordinates\<close>

lemma strat_record_2d_rows:
  assumes "r \<in> set (lixpys_unloc_2d_line (strat_record bd ve row w))"
  shows "r \<in> set (lixpys_unloc_2d_line w) \<or>
    (\<exists>well \<in> set (wwpt_unloc_merge w).
       near_wellid well = strat_wellid row \<and>
       elev_top row = Some (l2_z_top r) \<and> elev_bot row = Some (l2_z_bot r) \<and>
       l2_geometry r =
         [(OnLine_DIST well / 0.3048 / real_of_int ve, l2_z_top r),
          (OnLine_DIST well / 0.3048 / real_of_int ve, l2_z_bot r)])"
proof (rule strat_record_cases [where row = row and w = w])
  assume "elev_top row = None \<or> elev_bot row = None"
  with assms show ?thesis
    by (auto simp: strat_record_skipped printit_def)
next
  fix zt zb
  assume "elev_top row = Some zt" "elev_bot row = Some zb"
    "where_clause (strat_wellid row) (wwpt_unloc_merge w) = []"
  with assms show ?thesis
    by (simp add: strat_record_unmatched)
next
  fix zt zb
  let ?wells = "where_clause (strat_wellid row) (wwpt_unloc_merge w)"
  assume elev: "elev_top row = Some zt" "elev_bot row = Some zb" and ne: "?wells \<noteq> []"
  from ne have "last ?wells \<in> set ?wells"
    by simp
  then have well: "last ?wells \<in> set (wwpt_unloc_merge w)"
    "near_wellid (last ?wells) = strat_wellid row"
    by (auto simp: where_clause_def)
  from assms consider "r \<in> set (lixpys_unloc_2d_line w)"
    | "l2_geometry r =
         [(OnLine_DIST (last ?wells) / 0.3048 / real_of_int ve, zt),
          (OnLine_DIST (last ?wells) / 0.3048 / real_of_int ve, zb)]"
      "l2_z_top r = zt" "l2_z_bot r = zb"
    unfolding strat_record_drawn [OF elev ne]
    by (auto simp: insert_rows_def read_well_def Let_def)
  then show ?thesis
    using well elev by cases auto
qed

lemma strat_records_2d_rows:
  assumes "r \<in> set (lixpys_unloc_2d_line (strat_records bd ve rows w))"
  shows "r \<in> set (lixpys_unloc_2d_line w) \<or>
    (\<exists>well \<in> set (wwpt_unloc_merge w). \<exists>row \<in> set rows.
       near_wellid well = strat_wellid row \<and>
       elev_top row = Some (l2_z_top r) \<and> elev_bot row = Some (l2_z_bot r) \<and>
       l2_geometry r =
         [(OnLine_DIST well / 0.3048 / real_of_int ve, l2_z_top r),
          (OnLine_DIST well / 0.3048 / real_of_int ve, l2_z_bot r)])"
  using assms
proof (induction rows arbitrary: w)
  case Nil
  then show ?case by simp
next
  case (Cons row rows)
  from Cons.prems have "r \<in> set (lixpys_unloc_2d_line
      (strat_records bd ve rows (strat_record bd ve row w)))"
    by simp
  from Cons.IH [OF this] show ?case
  proof
    assume "r \<in> set (lixpys_unloc_2d_line (strat_record bd ve row w))"
    from strat_record_2d_rows [OF this] show ?thesis by auto
  next
    assume "\<exists>well \<in> set (wwpt_unloc_merge (strat_record bd ve row w)). \<exists>row \<in> set rows.
       near_wellid well = strat_wellid row \<and>
       elev_top row = Some (l2_z_top r) \<and> elev_bot row = Some (l2_z_bot r) \<and>
       l2_geometry r =
         [(OnLine_DIST well / 0.3048 / real_of_int ve, l2_z_top r),
          (OnLine_DIST well / 0.3048 / real_of_int ve, l2_z_bot r)]"
    then show ?thesis
      unfolding strat_record_merge by auto
  qed
qed

text \<open>
  C2: every 2D line that the stratigraphy loop writes is the two-point line from
  \<open>(x, elev_top)\<close> to \<open>(x, elev_bot)\<close> of its stratigraphy record, with \<open>x\<close> the
  measure of a well point of that well id, divided by 0.3048 and then by the vertical
  exaggeration; every vertex \<open>(X, Y, Z)\<close> of a 3D raster profile becomes the vertex
  \<open>(x, Z)\<close> of the 2D profile, with \<open>x\<close> its measure on the cross-section line divided
  by 0.3048 and then by the vertical exaggeration. Elevations are not scaled.
\<close>

theorem drawing_coordinates:
  "(\<forall>r \<in> set (lixpys_unloc_2d_line (strat_records bd ve rows w)).
      r \<in> set (lixpys_unloc_2d_line w) \<or>
      (\<exists>well \<in> set (wwpt_unloc_merge w). \<exists>row \<in> set rows.
         near_wellid well = strat_wellid row \<and>
         elev_top row = Some (l2_z_top r) \<and> elev_bot row = Some (l2_z_bot r) \<and>
         l2_geometry r =
           [(OnLine_DIST well / 0.3048 / real_of_int ve, l2_z_top r),
            (OnLine_DIST well / 0.3048 / real_of_int ve, l2_z_bot r)])) \<and>
   (\<forall>r \<in> set (raster_rows ve xsln rs).
      \<exists>line \<in> set xsln. \<exists>feature \<in> set (profiles_3d rs).
         p3_etid feature = xsln_etid line \<and>
         p2_geometry r =
           map (\<lambda>(X, Y, Z). (measureOnLine (part0 line) (X, Y) / 0.3048 / real_of_int ve, Z))
             (p3_part0 feature))"
proof -
  have "xy_xsecview ve g = (\<lambda>(X, Y, Z). (measureOnLine g (X, Y) / 0.3048 / real_of_int ve, Z))"
    for g
    by (auto simp: xy_xsecview_def Let_def fun_eq_iff)
  then have "\<forall>r \<in> set (raster_rows ve xsln rs).
      \<exists>line \<in> set xsln. \<exists>feature \<in> set (profiles_3d rs).
         p3_etid feature = xsln_etid line \<and>
         p2_geometry r =
           map (\<lambda>(X, Y, Z). (measureOnLine (part0 line) (X, Y) / 0.3048 / real_of_int ve, Z))
             (p3_part0 feature)"
    by (auto simp: raster_rows_def profile_polyline_def)
  with strat_records_2d_rows show ?thesis by blast
qed


theorem drawing_coordinates_witness:
  "hd (lixpys_unloc_2d_line (strat_records 500 50 [demo_strat_row]
         (empty_workspace\<lparr>wwpt_unloc_merge := two_wells\<rparr>)))
     \<in> set (lixpys_unloc_2d_line (strat_records 500 50 [demo_strat_row]
         (empty_workspace\<lparr>wwpt_unloc_merge := two_wells\<rparr>))) \<and>
   (\<exists>well \<in> set two_wells.
      l2_geometry (hd (lixpys_unloc_2d_line (strat_records 500 50 [demo_strat_row]
         (empty_workspace\<lparr>wwpt_unloc_merge := two_wells\<rparr>)))) =
        [(OnLine_DIST well / 0.3048 / 50, 300), (OnLine_DIST well / 0.3048 / 50, 280)]) \<and>
   hd (raster_rows 50 [demo_xsln] (hd (rasters_list demo_raster_input)))
     \<in> set (raster_rows 50 [demo_xsln] (hd (rasters_list demo_raster_input))) \<and>
   p2_geometry (hd (raster_rows 50 [demo_xsln] (hd (rasters_list demo_raster_input)))) =
     [(measureOnLine [(0, 0), (1000, 0)] (0, 0) / 0.3048 / 50, 310),
      (measureOnLine [(0, 0), (1000, 0)] (1000, 0) / 0.3048 / 50, 305)]"
proof -
  let ?w = "empty_workspace\<lparr>wwpt_unloc_merge := two_wells\<rparr>"
  let ?S = "lixpys_unloc_2d_line (strat_records 500 50 [demo_strat_row] ?w)"
  let ?R = "raster_rows 50 [demo_xsln] (hd (rasters_list demo_raster_input))"
  note dc = drawing_coordinates
    [where bd = 500 and ve = 50 and rows = "[demo_strat_row]" and w = ?w
       and xsln = "[demo_xsln]" and rs = "hd (rasters_list demo_raster_input)"]
  have len: "length ?S = 1" and old: "lixpys_unloc_2d_line ?w = []"
    and tops: "l2_z_top (hd ?S) = 300" "l2_z_bot (hd ?S) = 280"
    by (simp_all add: strat_record_def where_clause_def demo_strat_row_def two_wells_def
        empty_workspace_def insert_rows_def Let_def)
  from len have h1: "hd ?S \<in> set ?S"
    by (cases ?S) auto
  have merge: "wwpt_unloc_merge ?w = two_wells"
    by simp
  from dc h1 old merge tops have c1: "\<exists>well \<in> set two_wells.
      l2_geometry (hd ?S) =
        [(OnLine_DIST well / 0.3048 / 50, 300), (OnLine_DIST well / 0.3048 / 50, 280)]"
    by fastforce
  have rlen: "length ?R = 1"
    by (simp add: raster_rows_def demo_raster_input_def demo_xsln_def)
  then have h2: "hd ?R \<in> set ?R"
    by (cases ?R) auto
  from dc h2 have c2: "p2_geometry (hd ?R) =
     [(measureOnLine [(0, 0), (1000, 0)] (0, 0) / 0.3048 / 50, 310),
      (measureOnLine [(0, 0), (1000, 0)] (1000, 0) / 0.3048 / 50, 305)]"
    by (auto simp: demo_raster_input_def demo_xsln_def)
  from h1 c1 h2 c2 show ?thesis by blast
qed

subsection \<open>Matching of identifiers\<close>

lemma set_listprint: "set (listprint xs ys) = set xs - set ys"
  by (auto simp: listprint_def)

lemma set_append_new: "set (append_new acc xs) = set acc \<union> set xs"
  by (induction xs arbitrary: acc) auto

lemma orphan_example:
  "listprint (append_new [] [1, 2, 3 :: int]) (append_new [] [2, 3, 4]) = [1] \<and>
   listprint (append_new [] [2, 3, 4 :: int]) (append_new [] [1, 2, 3]) = [4]"
  by (simp add: listprint_def)

lemma orphan_warnings_only_messages:
  "(orphan_warnings inp w)\<lparr>messages := messages w\<rparr> = w"
  by (simp add: orphan_warnings_def warn_if_any_def printit_def Let_def)

lemma reconcile_nonempty:
  assumes "strat_table inp \<noteq> []" and "wwpt_file_orig inp \<noteq> []"
  shows "snd (reconcile inp w) = None \<and> (fst (reconcile inp w))\<lparr>messages := messages w\<rparr> = w"
proof -
  from assms have "set (strat_wellid_list inp) \<noteq> {}" and "set (wwpt_wellid_list inp) \<noteq> {}"
    by (simp_all add: strat_wellid_list_def wwpt_wellid_list_def set_append_new)
  then obtain s ss p ps where "strat_wellid_list inp = s # ss" "wwpt_wellid_list inp = p # ps"
    by (cases "strat_wellid_list inp"; cases "wwpt_wellid_list inp") auto
  then show ?thesis
    using orphan_warnings_only_messages [where inp = inp and w = w]
    by (auto simp: reconcile_def type_check_def printerror_def)
qed

text \<open>
  C9 fails on an empty stratigraphy table: the table passes cell 6 with a warning, and
  the comparison of the types of the first well ids in cell 7 then raises
  \<open>IndexError\<close>, which ends the run.
\<close>

theorem reconcile_raises_on_empty_table:
  "strat_table no_strat_input = [] \<and>
   snd (reconcile no_strat_input empty_workspace) = Some IndexError \<and>
   CreateLixpys_unloc no_strat_input =
     (empty_workspace\<lparr>messages := [(AddError, Strat_table_empty),
        (AddMessage, Wwpt_without_strat 1)]\<rparr>, Some IndexError)"
  by (simp add: no_strat_input_def demo_input_def demo_xsln_def qc_defs Let_def)

subsection \<open>Stick polygons\<close>

lemma planar_dist_vertical: "planar_dist (x, zt) (x, zb) = \<bar>zb - zt\<bar>"
  by (simp add: planar_dist_def)

lemma Buffer_FLAT_vertical:
  assumes "zb < zt"
  shows "Buffer_FLAT [(x, zt), (x, zb)] d = [(x + d, zt), (x + d, zb), (x - d, zb), (x - d, zt)]"
  using assms by (simp add: Buffer_FLAT_def planar_dist_vertical Let_def)

lemma buffer_and_sort_polys:
  "lixpys_unloc_2d_poly (fst (buffer_and_sort inp w)) =
     sort_key (\<lambda>r. sort_field (l2_wellid (poly_source r)))
       (map (\<lambda>r. \<lparr>poly_ring = Buffer_FLAT (l2_geometry r)
                       (130 / real_of_int (vertical_exaggeration inp) + well_stick_width inp),
                   poly_source = r\<rparr>)
          (lixpys_unloc_2d_line w))"
  by (simp add: buffer_and_sort_def Sort_def bufferdist_def Let_def)

lemma polys_sources:
  "mset (map poly_source (sort_key k (map (\<lambda>r. \<lparr>poly_ring = f r, poly_source = r\<rparr>) xs))) =
     mset xs"
  by (simp add: multiset.map_comp comp_def)

lemma polys_rings:
  "p \<in> set (sort_key k (map (\<lambda>r. \<lparr>poly_ring = f r, poly_source = r\<rparr>) xs)) \<Longrightarrow>
   poly_ring p = f (poly_source p)"
  by auto

text \<open>
  C8: cell 20 gives every 2D line exactly one polygon, its flat-ended buffer at the
  distance \<open>130 / vertical_exaggeration + well_stick_width\<close>, and writes the polygons
  sorted by well id. For a stick from \<open>(x, z_top)\<close> down to \<open>(x, z_bot)\<close> the polygon is
  the rectangle between \<open>x - d\<close> and \<open>x + d\<close> that ends at the two elevations.
\<close>

theorem stick_polygons:
  "let d = 130 / real_of_int (vertical_exaggeration inp) + well_stick_width inp;
       polys = lixpys_unloc_2d_poly (fst (buffer_and_sort inp w))
   in sorted (map (\<lambda>p. sort_field (l2_wellid (poly_source p))) polys) \<and>
      mset (map poly_source polys) = mset (lixpys_unloc_2d_line w) \<and>
      (\<forall>p \<in> set polys. poly_ring p = Buffer_FLAT (l2_geometry (poly_source p)) d) \<and>
      (\<forall>p \<in> set polys. \<forall>x zt zb.
         l2_geometry (poly_source p) = [(x, zt), (x, zb)] \<and> zb < zt \<longrightarrow>
         poly_ring p = [(x + d, zt), (x + d, zb), (x - d, zb), (x - d, zt)])"
proof -
  let ?d = "130 / real_of_int (vertical_exaggeration inp) + well_stick_width inp"
  let ?polys = "lixpys_unloc_2d_poly (fst (buffer_and_sort inp w))"
  have a: "sorted (map (\<lambda>p. sort_field (l2_wellid (poly_source p))) ?polys)"
    unfolding buffer_and_sort_polys by (rule sorted_sort_key)
  have b: "mset (map poly_source ?polys) = mset (lixpys_unloc_2d_line w)"
    unfolding buffer_and_sort_polys by (rule polys_sources)
  have c: "poly_ring p = Buffer_FLAT (l2_geometry (poly_source p)) ?d" if "p \<in> set ?polys" for p
    using that unfolding buffer_and_sort_polys by (rule polys_rings)
  have d: "poly_ring p = [(x + ?d, zt), (x + ?d, zb), (x - ?d, zb), (x - ?d, zt)]"
    if "p \<in> set ?polys" and "l2_geometry (poly_source p) = [(x, zt), (x, zb)]" and "zb < zt"
    for p x zt zb
    using c [OF that(1)] that(2,3) by (simp only: Buffer_FLAT_vertical)
  show ?thesis
    unfolding Let_def
  proof (intro conjI ballI allI impI)
    show "sorted (map (\<lambda>p. sort_field (l2_wellid (poly_source p))) ?polys)"
      by (rule a)
    show "mset (map poly_source ?polys) = mset (lixpys_unloc_2d_line w)"
      by (rule b)
    show "poly_ring p = Buffer_FLAT (l2_geometry (poly_source p)) ?d" if "p \<in> set ?polys" for p
      using that by (rule c)
    show "poly_ring p = [(x + ?d, zt), (x + ?d, zb), (x - ?d, zb), (x - ?d, zt)]"
      if "p \<in> set ?polys" and "l2_geometry (poly_source p) = [(x, zt), (x, zb)] \<and> zb < zt"
      for p x zt zb
      using d [OF that(1)] that(2) by blast
  qed
qed

theorem stick_polygons_witness:
  "map (l2_wellid \<circ> poly_source)
     (lixpys_unloc_2d_poly (fst (buffer_and_sort demo_input two_sticks))) =
     [NumericId 7, NumericId 9] \<and>
   hd (lixpys_unloc_2d_poly (fst (buffer_and_sort demo_input two_sticks)))
     \<in> set (lixpys_unloc_2d_poly (fst (buffer_and_sort demo_input two_sticks))) \<and>
   l2_geometry (poly_source (hd (lixpys_unloc_2d_poly (fst (buffer_and_sort demo_input
     two_sticks))))) = [(10, 300), (10, 280)] \<and>
   (280 :: real) < 300 \<and>
   poly_ring (hd (lixpys_unloc_2d_poly (fst (buffer_and_sort demo_input two_sticks)))) =
     [(10 + 31 / 10, 300), (10 + 31 / 10, 280), (10 - 31 / 10, 280), (10 - 31 / 10, 300)]"
proof -
  let ?polys = "lixpys_unloc_2d_poly (fst (buffer_and_sort demo_input two_sticks))"
  have d: "130 / real_of_int (vertical_exaggeration demo_input) + well_stick_width demo_input
      = 31 / 10"
    by (simp add: demo_input_def)
  have order: "map (l2_wellid \<circ> poly_source) ?polys = [NumericId 7, NumericId 9]"
    and geom: "l2_geometry (poly_source (hd ?polys)) = [(10, 300), (10, 280)]"
    by (simp_all add: buffer_and_sort_polys two_sticks_def stick_def empty_workspace_def)
  from order have h1: "hd ?polys \<in> set ?polys"
    by (cases ?polys) auto
  have h2: "(280 :: real) < 300"
    by simp
  from stick_polygons [of demo_input two_sticks] h1 geom h2
  have "poly_ring (hd ?polys) =
     [(10 + 31 / 10, 300), (10 + 31 / 10, 280), (10 - 31 / 10, 280), (10 - 31 / 10, 300)]"
    unfolding Let_def d by blast
  with order h1 geom h2 show ?thesis by blast
qed

subsection \<open>Distances, bearings and projections\<close>

lemma planar_dist_nonneg: "0 \<le> planar_dist p q"
  by (simp add: planar_dist_def)

lemma planar_dist_same: "planar_dist p p = 0"
  by (simp add: planar_dist_def)

lemma planar_dist_zero: "planar_dist p q = 0 \<Longrightarrow> q = p"
proof -
  assume "planar_dist p q = 0"
  then have "(fst q - fst p)\<^sup>2 + (snd q - snd p)\<^sup>2 = 0"
    by (simp add: planar_dist_def)
  then have "fst q = fst p" and "snd q = snd p"
    by (simp_all add: sum_power2_eq_zero_iff)
  then show ?thesis
    by (simp add: prod_eq_iff)
qed

lemma planar_dist_pos: "p \<noteq> q \<Longrightarrow> 0 < planar_dist p q"
  using planar_dist_zero [of p q] planar_dist_nonneg [of p q] by fastforce

text \<open>The point at distance \<open>d\<close> from \<open>p\<close>, straight away from \<open>q\<close>.\<close>

lemma point_away:
  assumes "p \<noteq> q"
  shows "pointFromAngleAndDistance p (fst (angleAndDistanceTo q p)) d =
     (fst p + d * ((fst p - fst q) / planar_dist q p),
      snd p + d * ((snd p - snd q) / planar_dist q p))"
proof -
  let ?z = "Complex (snd p - snd q) (fst p - fst q)"
  from assms have nz: "?z \<noteq> 0"
    by (auto simp: complex_eq_iff prod_eq_iff)
  have norm: "norm ?z = planar_dist q p"
    by (simp add: norm_complex_def planar_dist_def add.commute)
  have "sin (Arg ?z) = (fst p - fst q) / planar_dist q p"
    and "cos (Arg ?z) = (snd p - snd q) / planar_dist q p"
    using sin_Arg [OF nz] cos_Arg [OF nz] norm by simp_all
  then show ?thesis
    by (simp add: pointFromAngleAndDistance_def angleAndDistanceTo_def)
qed

text \<open>A point of a segment is its own closest point, and lies where it should.\<close>

lemma closest_on_segment_param:
  assumes "0 \<le> t" and "t \<le> 1"
    and "p = (fst a + t * (fst b - fst a), snd a + t * (snd b - snd a))"
  shows "closest_on_segment a b p = p" and "planar_dist a p = t * planar_dist a b"
proof -
  let ?dx = "fst b - fst a" and ?dy = "snd b - snd a"
  let ?l2 = "?dx * ?dx + ?dy * ?dy"
  show "closest_on_segment a b p = p"
  proof (cases "?l2 = 0")
    case True
    then have "?dx = 0" and "?dy = 0"
      by (simp_all add: sum_squares_eq_zero_iff)
    with assms(3) True show ?thesis
      by (simp add: closest_on_segment_def Let_def)
  next
    case False
    have "((fst p - fst a) * ?dx + (snd p - snd a) * ?dy) / ?l2 = t * ?l2 / ?l2"
      unfolding assms(3) by (simp add: algebra_simps)
    also have "\<dots> = t"
      using False by simp
    finally have "((fst p - fst a) * ?dx + (snd p - snd a) * ?dy) / ?l2 = t" .
    with False assms show ?thesis
      by (simp add: closest_on_segment_def Let_def)
  qed
  have "(fst p - fst a)\<^sup>2 + (snd p - snd a)\<^sup>2 = t\<^sup>2 * (?dx\<^sup>2 + ?dy\<^sup>2)"
    unfolding assms(3) by (simp add: algebra_simps power2_eq_square)
  then have "planar_dist a p = sqrt (t\<^sup>2 * (?dx\<^sup>2 + ?dy\<^sup>2))"
    by (simp add: planar_dist_def)
  also have "\<dots> = t * planar_dist a b"
    using assms(1) by (simp add: real_sqrt_mult planar_dist_def)
  finally show "planar_dist a p = t * planar_dist a b" .
qed

lemma closest_on_segment_is_param:
  "\<exists>t. 0 \<le> t \<and> t \<le> 1 \<and>
     closest_on_segment a b p = (fst a + t * (fst b - fst a), snd a + t * (snd b - snd a))"
proof (cases "(fst b - fst a) * (fst b - fst a) + (snd b - snd a) * (snd b - snd a) = 0")
  case True
  then have "closest_on_segment a b p = (fst a + 0 * (fst b - fst a), snd a + 0 * (snd b - snd a))"
    by (simp add: closest_on_segment_def)
  then show ?thesis
    by (intro exI [of _ 0]) simp
next
  case False
  let ?t = "max 0 (min 1 (((fst p - fst a) * (fst b - fst a) + (snd p - snd a) * (snd b - snd a))
      / ((fst b - fst a) * (fst b - fst a) + (snd b - snd a) * (snd b - snd a))))"
  from False have "closest_on_segment a b p =
      (fst a + ?t * (fst b - fst a), snd a + ?t * (snd b - snd a))"
    by (simp add: closest_on_segment_def Let_def)
  moreover have "0 \<le> ?t" and "?t \<le> 1"
    by simp_all
  ultimately show ?thesis
    by blast
qed

lemma closest_on_segment_idem:
  "closest_on_segment a b (closest_on_segment a b p) = closest_on_segment a b p"
  using closest_on_segment_is_param [of a b p] closest_on_segment_param(1) by metis

subsection \<open>Nearest point and measure\<close>

lemma candidates_length: "length (candidates acc vs p) = length vs - 1"
  by (induction acc vs p rule: candidates.induct) (auto simp: Let_def)

lemma candidates_nth:
  "Suc i < length vs \<Longrightarrow>
   candidates acc vs p ! i =
     (closest_on_segment (vs ! i) (vs ! Suc i) p,
      planar_dist p (closest_on_segment (vs ! i) (vs ! Suc i) p),
      acc + (\<Sum>j<i. planar_dist (vs ! j) (vs ! Suc j)) +
        planar_dist (vs ! i) (closest_on_segment (vs ! i) (vs ! Suc i) p))"
proof (induction acc vs p arbitrary: i rule: candidates.induct)
  case (1 acc a b vs p)
  show ?case
  proof (cases i)
    case 0
    then show ?thesis by (simp add: Let_def)
  next
    case (Suc k)
    with "1.prems" have k: "Suc k < length (b # vs)"
      by simp
    have shift: "(\<Sum>j<Suc k. planar_dist ((a # b # vs) ! j) ((a # b # vs) ! Suc j)) =
        planar_dist a b + (\<Sum>j<k. planar_dist ((b # vs) ! j) ((b # vs) ! Suc j))"
      by (simp add: sum.lessThan_Suc_shift del: sum.lessThan_Suc)
    show ?thesis
      unfolding Suc shift using "1.IH" [OF refl k]
      by (simp add: Let_def)
  qed
qed simp_all

lemma arg_min_list_first:
  assumes "\<And>y. y \<in> set xs \<Longrightarrow> f x \<le> f y"
  shows "arg_min_list f (x # xs) = x"
proof (cases xs)
  case Nil
  then show ?thesis by simp
next
  case (Cons y zs)
  have "arg_min_list f (y # zs) \<in> set (y # zs)"
    by (rule arg_min_list_in) simp
  with assms Cons have "f x \<le> f (arg_min_list f (y # zs))"
    by simp
  with Cons show ?thesis
    by (simp add: Let_def)
qed

text \<open>What a query returns: a closest point of some segment, at least as close as the
  closest point of every segment, with the length of the line up to it.\<close>

lemma queryPointAndDistance_result:
  assumes "2 \<le> length g"
  shows "\<exists>i. Suc i < length g \<and>
     queryPointAndDistance g p =
       Some (closest_on_segment (g ! i) (g ! Suc i) p,
             planar_dist p (closest_on_segment (g ! i) (g ! Suc i) p),
             (\<Sum>j<i. planar_dist (g ! j) (g ! Suc j)) +
               planar_dist (g ! i) (closest_on_segment (g ! i) (g ! Suc i) p)) \<and>
     (\<forall>j. Suc j < length g \<longrightarrow>
        planar_dist p (closest_on_segment (g ! i) (g ! Suc i) p) \<le>
        planar_dist p (closest_on_segment (g ! j) (g ! Suc j) p))"
proof -
  let ?cs = "candidates 0 g p"
  let ?f = "\<lambda>(c :: point, d :: real, m :: real). d"
  from assms have len: "length ?cs = length g - 1" and ne: "?cs \<noteq> []"
    using candidates_length [of 0 g p] by auto
  then obtain c cs where cs: "?cs = c # cs"
    by (cases ?cs) auto
  then have q: "queryPointAndDistance g p = Some (arg_min_list ?f ?cs)"
    by (simp add: queryPointAndDistance_def)
  from arg_min_list_in [OF ne, of ?f] obtain i where i: "i < length ?cs"
    and best: "arg_min_list ?f ?cs = ?cs ! i"
    by (auto simp: in_set_conv_nth)
  from i len have i': "Suc i < length g"
    by simp
  have min: "?f (?cs ! i) \<le> ?f (?cs ! j)" if "j < length ?cs" for j
  proof -
    have "?f (arg_min_list ?f ?cs) = Min (?f ` set ?cs)"
      by (rule f_arg_min_list_f [OF ne])
    moreover have "?f (?cs ! j) \<in> ?f ` set ?cs"
      using that by simp
    ultimately show ?thesis
      unfolding best by simp
  qed
  have "\<forall>j. Suc j < length g \<longrightarrow>
        planar_dist p (closest_on_segment (g ! i) (g ! Suc i) p) \<le>
        planar_dist p (closest_on_segment (g ! j) (g ! Suc j) p)"
  proof (intro allI impI)
    fix j
    assume j: "Suc j < length g"
    with len have "j < length ?cs"
      by simp
    from min [OF this] show "planar_dist p (closest_on_segment (g ! i) (g ! Suc i) p) \<le>
        planar_dist p (closest_on_segment (g ! j) (g ! Suc j) p)"
      by (simp add: candidates_nth [OF i'] candidates_nth [OF j])
  qed
  with i' q best show ?thesis
    by (auto simp: candidates_nth [OF i'])
qed

lemma candidates_dist_nonneg:
  "y \<in> set (candidates acc vs p) \<Longrightarrow> 0 \<le> fst (snd y)"
  by (induction acc vs p rule: candidates.induct) (auto simp: Let_def planar_dist_nonneg)

text \<open>A point of the first segment is found there, at its distance from the first vertex.\<close>

lemma query_first_segment:
  assumes "0 \<le> t" and "t \<le> 1"
    and "p = (fst a + t * (fst b - fst a), snd a + t * (snd b - snd a))"
  shows "queryPointAndDistance (a # b # rest) p = Some (p, 0, t * planar_dist a b)"
proof -
  let ?f = "\<lambda>(c :: point, d :: real, m :: real). d"
  let ?x = "(p, 0 :: real, t * planar_dist a b)"
  let ?xs = "candidates (0 + planar_dist a b) (b # rest) p"
  have cs: "candidates 0 (a # b # rest) p = ?x # ?xs"
    using closest_on_segment_param [OF assms]
    by (simp add: Let_def planar_dist_same)
  have "?f ?x \<le> ?f y" if "y \<in> set ?xs" for y
    using candidates_dist_nonneg [OF that] by (cases y) auto
  then have "arg_min_list ?f (?x # ?xs) = ?x"
    by (rule arg_min_list_first)
  then show ?thesis
    unfolding queryPointAndDistance_def cs by simp
qed

text \<open>
  A first segment that runs from \<open>\<alpha>\<close> ahead of a point \<open>(x0, y0)\<close> to \<open>s\<close> behind it,
  along a unit vector: the point \<open>e\<close> ahead is found at \<open>\<alpha> - e\<close> along the line.
\<close>

lemma query_on_first_segment:
  assumes unit: "ux\<^sup>2 + uy\<^sup>2 = 1"
    and a: "a = (x0 + \<alpha> * ux, y0 + \<alpha> * uy)"
    and b: "b = (x0 - s * ux, y0 - s * uy)"
    and p: "p = (x0 + e * ux, y0 + e * uy)"
    and e: "0 \<le> e" "e \<le> \<alpha>" and s: "0 < s"
  shows "queryPointAndDistance (a # b # rest) p = Some (p, 0, \<alpha> - e)"
proof -
  define t where "t = (\<alpha> - e) / (\<alpha> + s)"
  from e s have pos: "0 < \<alpha> + s"
    by simp
  from e s have t: "0 \<le> t" "t \<le> 1"
    by (simp_all add: t_def field_simps)
  have "(fst b - fst a)\<^sup>2 + (snd b - snd a)\<^sup>2 = (\<alpha> + s)\<^sup>2 * (ux\<^sup>2 + uy\<^sup>2)"
    unfolding a b by (simp add: algebra_simps power2_eq_square)
  then have "planar_dist a b = sqrt ((\<alpha> + s)\<^sup>2)"
    unfolding planar_dist_def unit by simp
  with pos have len: "planar_dist a b = \<alpha> + s"
    by simp
  have ts: "t * (\<alpha> + s) = \<alpha> - e"
    using pos by (simp add: t_def)
  have "fst a + t * (fst b - fst a) = x0 + \<alpha> * ux - (t * (\<alpha> + s)) * ux"
    and "snd a + t * (snd b - snd a) = y0 + \<alpha> * uy - (t * (\<alpha> + s)) * uy"
    unfolding a b by (simp_all add: algebra_simps)
  then have "p = (fst a + t * (fst b - fst a), snd a + t * (snd b - snd a))"
    unfolding ts p by (simp add: algebra_simps)
  from query_first_segment [OF t this, of rest] show ?thesis
    unfolding len ts .
qed

subsection \<open>Measures on the extended line\<close>

lemma planar_dist_commute: "planar_dist p q = planar_dist q p"
  by (simp add: planar_dist_def power2_commute)

lemma near_row_OnLine_DIST:
  "OnLine_DIST (near_row bd g well) =
     measureOnLine g (NEAR_X (near_row bd g well), NEAR_Y (near_row bd g well)) - real_of_int bd"
  by (simp add: near_row_def Let_def split: prod.splits)

lemma near_row_Near:
  "queryPointAndDistance g (wwpt_shape well) = Some (c, d, m) \<Longrightarrow>
   NEAR_X (near_row bd g well) = fst c \<and> NEAR_Y (near_row bd g well) = snd c \<and>
   NEAR_DIST (near_row bd g well) = d"
  by (simp add: near_row_def Near_def Let_def)

text \<open>
  The first segment of the extended line passes through the start vertex of the
  original line: it starts the buffer distance before it and ends beyond it.
\<close>

lemma query_extension:
  assumes len: "2 \<le> length vs" and ne: "vs ! 0 \<noteq> vs ! 1"
    and ext: "extend_line bd vs = Inr ext"
    and e: "0 \<le> e" "e \<le> real_of_int bd"
    and p: "p = pointFromAngleAndDistance (vs ! 0) (fst (angleAndDistanceTo (vs ! 1) (vs ! 0))) e"
  shows "queryPointAndDistance ext p = Some (p, 0, real_of_int bd - e)"
proof -
  from len obtain v0 v1 rest where vs: "vs = v0 # v1 # rest"
    by (cases vs; cases "tl vs") auto
  with ne have ne': "v0 \<noteq> v1"
    by simp
  define L where "L = planar_dist v1 v0"
  define ux where "ux = (fst v0 - fst v1) / L"
  define uy where "uy = (snd v0 - snd v1) / L"
  from ne' have L: "0 < L"
    unfolding L_def using planar_dist_pos [of v1 v0] by simp
  have sq: "(fst v0 - fst v1)\<^sup>2 + (snd v0 - snd v1)\<^sup>2 = L\<^sup>2"
    by (simp add: L_def planar_dist_def)
  have "ux\<^sup>2 + uy\<^sup>2 = ((fst v0 - fst v1)\<^sup>2 + (snd v0 - snd v1)\<^sup>2) / L\<^sup>2"
    by (simp add: ux_def uy_def power_divide add_divide_distrib)
  also have "\<dots> = 1"
    unfolding sq using L by simp
  finally have unit: "ux\<^sup>2 + uy\<^sup>2 = 1" .
  have away: "pointFromAngleAndDistance v0 (fst (angleAndDistanceTo v1 v0)) d =
      (fst v0 + d * ux, snd v0 + d * uy)" for d
    using point_away [OF ne'] by (simp add: ux_def uy_def L_def)
  have v1: "v1 = (fst v0 - L * ux, snd v0 - L * uy)"
    using L by (simp add: ux_def uy_def prod_eq_iff)
  have behind: "pointFromAngleAndDistance v1 (fst (angleAndDistanceTo v0 v1)) d =
      (fst v0 - (L + d) * ux, snd v0 - (L + d) * uy)" for d
  proof -
    have "pointFromAngleAndDistance v1 (fst (angleAndDistanceTo v0 v1)) d =
        (fst v1 + d * ((fst v1 - fst v0) / L), snd v1 + d * ((snd v1 - snd v0) / L))"
      using point_away [of v1 v0 d] ne' planar_dist_commute [of v0 v1] by (simp add: L_def)
    also have "\<dots> = (fst v1 - d * ux, snd v1 - d * uy)"
      by (simp add: ux_def uy_def divide_simps) (simp add: algebra_simps)
    also have "\<dots> = (fst v0 - (L + d) * ux, snd v0 - (L + d) * uy)"
      by (subst (1 2) v1) (simp add: algebra_simps)
    finally show ?thesis .
  qed
  have "\<exists>b tail s. ext = (fst v0 + real_of_int bd * ux, snd v0 + real_of_int bd * uy) # b # tail \<and>
      b = (fst v0 - s * ux, snd v0 - s * uy) \<and> 0 < s"
  proof (cases rest)
    case Nil
    with ext vs have "ext = [pointFromAngleAndDistance v0 (fst (angleAndDistanceTo v1 v0))
          (real_of_int bd),
        pointFromAngleAndDistance v1 (fst (angleAndDistanceTo v0 v1)) (real_of_int bd)]"
      by (auto simp: Let_def)
    then have "ext = (fst v0 + real_of_int bd * ux, snd v0 + real_of_int bd * uy) #
        (fst v0 - (L + real_of_int bd) * ux, snd v0 - (L + real_of_int bd) * uy) # []"
      unfolding away behind .
    moreover have "0 < L + real_of_int bd"
      using L e by simp
    ultimately show ?thesis
      by blast
  next
    case (Cons v2 rest')
    with ext vs have "\<exists>tail. ext = pointFromAngleAndDistance v0 (fst (angleAndDistanceTo v1 v0))
          (real_of_int bd) # v1 # tail"
      by (auto simp: Let_def)
    then obtain tail where "ext =
        (fst v0 + real_of_int bd * ux, snd v0 + real_of_int bd * uy) # v1 # tail"
      unfolding away by blast
    with v1 L show ?thesis
      by blast
  qed
  then obtain b tail s where ext': "ext =
      (fst v0 + real_of_int bd * ux, snd v0 + real_of_int bd * uy) # b # tail"
    and b: "b = (fst v0 - s * ux, snd v0 - s * uy)" and s: "0 < s"
    by blast
  have p': "p = (fst v0 + e * ux, snd v0 + e * uy)"
    unfolding p vs using away by simp
  show ?thesis
    unfolding ext' by (rule query_on_first_segment [OF unit refl b p' e s])
qed

lemma extend_line_length:
  assumes "extend_line bd vs = Inr ext"
  shows "length ext = length vs" and "2 \<le> length vs"
proof -
  show two: "2 \<le> length vs"
  proof (rule ccontr)
    assume "\<not> 2 \<le> length vs"
    then consider "vs = []" | v where "vs = [v]"
      by (cases vs; cases "tl vs") auto
    then show False
      using assms by cases auto
  qed
  from assms show "length ext = length vs"
    unfolding extend_line_Inr [OF two] by auto
qed

text \<open>
  On any line of two or more vertices: the near point is a closest point of the line,
  and the measure that cell 14 stores is the length of the line up to the near point,
  less the buffer distance.
\<close>

lemma near_row_measure:
  assumes "2 \<le> length g"
  shows "(\<exists>i. Suc i < length g \<and>
        (NEAR_X (near_row bd g well), NEAR_Y (near_row bd g well)) =
          closest_on_segment (g ! i) (g ! Suc i) (wwpt_shape well))"
    and "\<forall>j. Suc j < length g \<longrightarrow>
        planar_dist (wwpt_shape well) (NEAR_X (near_row bd g well), NEAR_Y (near_row bd g well))
        \<le> planar_dist (wwpt_shape well)
            (closest_on_segment (g ! j) (g ! Suc j) (wwpt_shape well))"
    and "\<exists>k. Suc k < length g \<and>
        closest_on_segment (g ! k) (g ! Suc k)
          (NEAR_X (near_row bd g well), NEAR_Y (near_row bd g well)) =
          (NEAR_X (near_row bd g well), NEAR_Y (near_row bd g well)) \<and>
        OnLine_DIST (near_row bd g well) =
          (\<Sum>j<k. planar_dist (g ! j) (g ! Suc j)) +
          planar_dist (g ! k) (NEAR_X (near_row bd g well), NEAR_Y (near_row bd g well)) -
          real_of_int bd"
proof -
  let ?P = "wwpt_shape well"
  let ?N = "(NEAR_X (near_row bd g well), NEAR_Y (near_row bd g well))"
  from queryPointAndDistance_result [OF assms, of ?P] obtain i where i: "Suc i < length g"
    and q: "queryPointAndDistance g ?P =
       Some (closest_on_segment (g ! i) (g ! Suc i) ?P,
             planar_dist ?P (closest_on_segment (g ! i) (g ! Suc i) ?P),
             (\<Sum>j<i. planar_dist (g ! j) (g ! Suc j)) +
               planar_dist (g ! i) (closest_on_segment (g ! i) (g ! Suc i) ?P))"
    and least: "\<And>j. Suc j < length g \<Longrightarrow>
        planar_dist ?P (closest_on_segment (g ! i) (g ! Suc i) ?P) \<le>
        planar_dist ?P (closest_on_segment (g ! j) (g ! Suc j) ?P)"
    by blast
  from near_row_Near [OF q, of bd] have N: "?N = closest_on_segment (g ! i) (g ! Suc i) ?P"
    by (simp add: prod_eq_iff)
  from i N show "\<exists>i. Suc i < length g \<and> ?N = closest_on_segment (g ! i) (g ! Suc i) ?P"
    by blast
  from least show "\<forall>j. Suc j < length g \<longrightarrow>
      planar_dist ?P ?N \<le> planar_dist ?P (closest_on_segment (g ! j) (g ! Suc j) ?P)"
    unfolding N by blast
  from queryPointAndDistance_result [OF assms, of ?N] obtain k where k: "Suc k < length g"
    and q': "queryPointAndDistance g ?N =
       Some (closest_on_segment (g ! k) (g ! Suc k) ?N,
             planar_dist ?N (closest_on_segment (g ! k) (g ! Suc k) ?N),
             (\<Sum>j<k. planar_dist (g ! j) (g ! Suc j)) +
               planar_dist (g ! k) (closest_on_segment (g ! k) (g ! Suc k) ?N))"
    and least': "\<And>j. Suc j < length g \<Longrightarrow>
        planar_dist ?N (closest_on_segment (g ! k) (g ! Suc k) ?N) \<le>
        planar_dist ?N (closest_on_segment (g ! j) (g ! Suc j) ?N)"
    by blast
  have "closest_on_segment (g ! i) (g ! Suc i) ?N = ?N"
    by (subst (1 2) N) (rule closest_on_segment_idem)
  with least' [OF i] have "planar_dist ?N (closest_on_segment (g ! k) (g ! Suc k) ?N) \<le> 0"
    by (simp add: planar_dist_same)
  with planar_dist_nonneg [of ?N "closest_on_segment (g ! k) (g ! Suc k) ?N"]
  have "planar_dist ?N (closest_on_segment (g ! k) (g ! Suc k) ?N) = 0"
    by simp
  then have fixed: "closest_on_segment (g ! k) (g ! Suc k) ?N = ?N"
    by (rule planar_dist_zero)
  have "measureOnLine g ?N =
      (\<Sum>j<k. planar_dist (g ! j) (g ! Suc j)) + planar_dist (g ! k) ?N"
    unfolding measureOnLine_def q' fixed by simp
  with k fixed show "\<exists>k. Suc k < length g \<and>
        closest_on_segment (g ! k) (g ! Suc k) ?N = ?N \<and>
        OnLine_DIST (near_row bd g well) =
          (\<Sum>j<k. planar_dist (g ! j) (g ! Suc j)) + planar_dist (g ! k) ?N - real_of_int bd"
    unfolding near_row_OnLine_DIST by auto
qed

lemma near_row_on_extension:
  assumes "2 \<le> length vs" and "vs ! 0 \<noteq> vs ! 1" and "extend_line bd vs = Inr ext"
    and "0 \<le> e" and "e \<le> real_of_int bd"
  shows "wwpt_shape well =
        pointFromAngleAndDistance (vs ! 0) (fst (angleAndDistanceTo (vs ! 1) (vs ! 0))) e \<Longrightarrow>
      (NEAR_X (near_row bd ext well), NEAR_Y (near_row bd ext well)) = wwpt_shape well"
    and "(NEAR_X (near_row bd ext well), NEAR_Y (near_row bd ext well)) =
        pointFromAngleAndDistance (vs ! 0) (fst (angleAndDistanceTo (vs ! 1) (vs ! 0))) e \<Longrightarrow>
      OnLine_DIST (near_row bd ext well) = - e"
proof -
  let ?p = "pointFromAngleAndDistance (vs ! 0) (fst (angleAndDistanceTo (vs ! 1) (vs ! 0))) e"
  note q = query_extension [OF assms refl]
  show "(NEAR_X (near_row bd ext well), NEAR_Y (near_row bd ext well)) = wwpt_shape well"
    if "wwpt_shape well = ?p"
    using near_row_Near [where g = ext and well = well and c = ?p and d = 0
        and m = "real_of_int bd - e" and bd = bd] q that
    by (simp add: prod_eq_iff)
  show "OnLine_DIST (near_row bd ext well) = - e"
    if "(NEAR_X (near_row bd ext well), NEAR_Y (near_row bd ext well)) = ?p"
    unfolding near_row_OnLine_DIST that measureOnLine_def q by simp
qed

lemma point_at_no_distance: "pointFromAngleAndDistance p angle 0 = p"
  by (simp add: pointFromAngleAndDistance_def)

text \<open>
  C1: on the extended line of a cross-section line, the near point of a well is a
  closest point of the line, and the measure that cell 14 stores for the well is the
  length of the extended line from its first vertex to that near point, less the buffer
  distance. Where the first two vertices of the original line differ, a well on the
  start vertex of the original line gets the measure 0, and a well whose near point lies
  on the extension, \<open>e\<close> before the start vertex, gets the measure \<open>- e\<close>, which is
  negative.
\<close>

theorem measure_on_extended_line:
  assumes "2 \<le> length vs" and "0 < bd" and "extend_line bd vs = Inr ext"
  shows "let r = near_row bd ext well;
             N = (NEAR_X r, NEAR_Y r);
             P = wwpt_shape well;
             start = vs ! 0;
             bearing = fst (angleAndDistanceTo (vs ! 1) (vs ! 0))
         in (\<exists>i. Suc i < length ext \<and> N = closest_on_segment (ext ! i) (ext ! Suc i) P) \<and>
            (\<forall>j. Suc j < length ext \<longrightarrow>
               planar_dist P N \<le> planar_dist P (closest_on_segment (ext ! j) (ext ! Suc j) P)) \<and>
            (\<exists>k. Suc k < length ext \<and> closest_on_segment (ext ! k) (ext ! Suc k) N = N \<and>
               OnLine_DIST r =
                 (\<Sum>j<k. planar_dist (ext ! j) (ext ! Suc j)) + planar_dist (ext ! k) N
                 - real_of_int bd) \<and>
            (start \<noteq> vs ! 1 \<and> P = start \<longrightarrow> OnLine_DIST r = 0) \<and>
            (\<forall>e. start \<noteq> vs ! 1 \<and> 0 < e \<and> e \<le> real_of_int bd \<and>
               N = pointFromAngleAndDistance start bearing e \<longrightarrow>
               OnLine_DIST r = - e \<and> OnLine_DIST r < 0)"
proof -
  let ?r = "near_row bd ext well"
  let ?N = "(NEAR_X ?r, NEAR_Y ?r)"
  let ?P = "wwpt_shape well"
  let ?bearing = "fst (angleAndDistanceTo (vs ! 1) (vs ! 0))"
  from assms(1) extend_line_length(1) [OF assms(3)] have len: "2 \<le> length ext"
    by simp
  note general = near_row_measure [OF len, where bd = bd and well = well]
  have start: "OnLine_DIST ?r = 0" if "vs ! 0 \<noteq> vs ! 1" and "?P = vs ! 0"
  proof -
    from assms(2) have bd: "(0 :: real) \<le> 0" "0 \<le> real_of_int bd"
      by simp_all
    from that(2) have P: "?P = pointFromAngleAndDistance (vs ! 0) ?bearing 0"
      by (simp add: point_at_no_distance)
    from near_row_on_extension(1) [OF assms(1) that(1) assms(3) bd P] P
    have "?N = pointFromAngleAndDistance (vs ! 0) ?bearing 0"
      by simp
    from near_row_on_extension(2) [OF assms(1) that(1) assms(3) bd this]
    show ?thesis by simp
  qed
  have before: "OnLine_DIST ?r = - e \<and> OnLine_DIST ?r < 0"
    if "vs ! 0 \<noteq> vs ! 1" and "0 < e" and "e \<le> real_of_int bd"
      and "?N = pointFromAngleAndDistance (vs ! 0) ?bearing e" for e
  proof -
    from that(2) have "0 \<le> e"
      by simp
    from near_row_on_extension(2) [OF assms(1) that(1) assms(3) this that(3,4)] that(2)
    show ?thesis by simp
  qed
  show ?thesis
    unfolding Let_def
    using general start before by blast
qed

lemma planar_dist_horizontal: "planar_dist (x1, y) (x2, y) = \<bar>x2 - x1\<bar>"
  by (simp add: planar_dist_def)

lemma demo_bearings:
  "pointFromAngleAndDistance (0, 0) (fst (angleAndDistanceTo (1000, 0) (0, 0))) d = (- d, 0)"
  "pointFromAngleAndDistance (1000, 0) (fst (angleAndDistanceTo (0, 0) (1000, 0))) d =
     (1000 + d, 0)"
  using point_away [of "(0, 0)" "(1000, 0)" d] point_away [of "(1000, 0)" "(0, 0)" d]
  by (simp_all add: planar_dist_horizontal)

lemma demo_extended: "extend_line 500 [(0, 0), (1000, 0)] = Inr [(- 500, 0), (1500, 0)]"
  by (simp add: Let_def demo_bearings)

lemma demo_query:
  "queryPointAndDistance [(- 500, 0), (1500, 0)] (x, y) =
     Some (closest_on_segment (- 500, 0) (1500, 0) (x, y),
           planar_dist (x, y) (closest_on_segment (- 500, 0) (1500, 0) (x, y)),
           planar_dist (- 500, 0) (closest_on_segment (- 500, 0) (1500, 0) (x, y)))"
  by (simp add: queryPointAndDistance_def Let_def)

lemma demo_closest:
  "- 500 \<le> x \<Longrightarrow> x \<le> 1500 \<Longrightarrow> closest_on_segment (- 500, 0) (1500, 0) (x, y) = (x, 0)"
  by (simp add: closest_on_segment_def Let_def min_def max_def field_simps)

text \<open>
  The round trip of the spec: the line from (0, 0) to (1000, 0), a buffer of 500, a
  well at (1000, 50). The well is 1000 along the line and 50 away from it.
\<close>

lemma round_trip:
  "near_row 500 [(- 500, 0), (1500, 0)] (well_at (1000, 50)) =
     \<lparr>near_shape = (1000, 50), near_wellid = NumericId 7, near_etid = ''A'',
      NEAR_X = 1000, NEAR_Y = 0, NEAR_DIST = 50, OnLine_DIST = 1000\<rparr>"
  by (simp add: near_row_def Near_def measureOnLine_def demo_query demo_closest well_at_def
      planar_dist_horizontal planar_dist_vertical)

theorem measure_on_extended_line_witness:
  "2 \<le> length ([(0, 0), (1000, 0)] :: point list) \<and> (0 :: int) < 500 \<and>
   extend_line 500 [(0, 0), (1000, 0)] = Inr [(- 500, 0), (1500, 0)] \<and>
   ([(0, 0), (1000, 0)] :: point list) ! 0 \<noteq> [(0, 0), (1000, 0)] ! 1 \<and>
   wwpt_shape (well_at (0, 0)) = [(0, 0), (1000, 0)] ! 0 \<and>
   OnLine_DIST (near_row 500 [(- 500, 0), (1500, 0)] (well_at (0, 0))) = 0 \<and>
   (0 :: real) < 200 \<and> (200 :: real) \<le> real_of_int 500 \<and>
   (NEAR_X (near_row 500 [(- 500, 0), (1500, 0)] (well_at (- 200, 50))),
    NEAR_Y (near_row 500 [(- 500, 0), (1500, 0)] (well_at (- 200, 50)))) =
     pointFromAngleAndDistance ([(0, 0), (1000, 0)] ! 0)
       (fst (angleAndDistanceTo ([(0, 0), (1000, 0)] ! 1) ([(0, 0), (1000, 0)] ! 0))) 200 \<and>
   OnLine_DIST (near_row 500 [(- 500, 0), (1500, 0)] (well_at (- 200, 50))) = - 200"
proof -
  let ?vs = "[(0, 0), (1000, 0)] :: point list"
  let ?ext = "[(- 500, 0), (1500, 0)] :: point list"
  have h1: "2 \<le> length ?vs" and h2: "(0 :: int) < 500"
    by simp_all
  have h3: "extend_line 500 ?vs = Inr ?ext"
    by (rule demo_extended)
  have h4: "?vs ! 0 \<noteq> ?vs ! 1" and h5: "wwpt_shape (well_at (0, 0)) = ?vs ! 0"
    by (simp_all add: well_at_def)
  have h6: "(0 :: real) < 200" and h7: "(200 :: real) \<le> real_of_int 500"
    by simp_all
  have h8: "(NEAR_X (near_row 500 ?ext (well_at (- 200, 50))),
      NEAR_Y (near_row 500 ?ext (well_at (- 200, 50)))) =
     pointFromAngleAndDistance (?vs ! 0) (fst (angleAndDistanceTo (?vs ! 1) (?vs ! 0))) 200"
    by (simp add: near_row_def Near_def demo_query demo_closest well_at_def demo_bearings)
  from measure_on_extended_line [OF h1 h2 h3, of "well_at (0, 0)"] h4 h5
  have c1: "OnLine_DIST (near_row 500 ?ext (well_at (0, 0))) = 0"
    unfolding Let_def by blast
  from measure_on_extended_line [OF h1 h2 h3, of "well_at (- 200, 50)"] h4 h6 h7 h8
  have c2: "OnLine_DIST (near_row 500 ?ext (well_at (- 200, 50))) = - 200"
    unfolding Let_def by blast
  from h1 h2 h3 h4 h5 c1 h6 h7 h8 c2 show ?thesis
    by blast
qed

subsection \<open>From the stages to the run\<close>

lemma run_stages_invariant:
  assumes "I w" and "\<And>f w. f \<in> set fs \<Longrightarrow> I w \<Longrightarrow> I (fst (f w))"
  shows "I (fst (run_stages fs w))"
  using assms
proof (induction fs arbitrary: w)
  case Nil
  then show ?case by simp
next
  case (Cons f fs)
  have step: "I (fst (f w))"
    using Cons.prems by simp
  show ?case
  proof (cases "snd (f w)")
    case None
    then have "run_stages (f # fs) w = run_stages fs (fst (f w))"
      by (cases "f w") simp
    with Cons.IH [OF step] Cons.prems(2) show ?thesis by simp
  next
    case (Some e)
    then have "run_stages (f # fs) w = f w"
      by (cases "f w") simp
    with step show ?thesis by simp
  qed
qed

text \<open>The checks of cells 5 to 7 write messages and nothing else.\<close>

lemma preflight_only_messages:
  assumes "f \<in> set (preflight inp)"
  shows "(fst (f w))\<lparr>messages := messages w\<rparr> = w"
proof -
  have "(fst (reconcile inp w))\<lparr>messages := messages w\<rparr> = w"
    using orphan_warnings_only_messages [where inp = inp and w = w]
    by (auto simp: reconcile_def type_check_def printerror_def split: list.splits)
  with assms show ?thesis
    by (auto simp: preflight_def stage_defs)
qed

lemma preflight_run_only_messages:
  "(fst (run_stages (preflight inp) empty_workspace))\<lparr>messages := []\<rparr> = empty_workspace"
proof -
  have "(\<lambda>w. w\<lparr>messages := []\<rparr> = empty_workspace) (fst (run_stages (preflight inp) empty_workspace))"
  proof (rule run_stages_invariant)
    show "empty_workspace\<lparr>messages := []\<rparr> = empty_workspace"
      by (simp add: empty_workspace_def)
  next
    fix f and w :: workspace
    assume f: "f \<in> set (preflight inp)" and w: "w\<lparr>messages := []\<rparr> = empty_workspace"
    from arg_cong [OF preflight_only_messages [OF f, of w], of "\<lambda>v. v\<lparr>messages := []\<rparr>"]
    have "(fst (f w))\<lparr>messages := []\<rparr> = w\<lparr>messages := []\<rparr>"
      by simp
    with w show "(fst (f w))\<lparr>messages := []\<rparr> = empty_workspace"
      by simp
  qed
  then show ?thesis .
qed

lemma set_update_subset: "set (AList.update k v al) \<subseteq> insert (k, v) (set al)"
  by (induction al) auto

lemma extend_lines_rows:
  "p \<in> set (xsln_temp (fst (extend_lines bd lines w))) \<Longrightarrow>
   p \<in> set (xsln_temp w) \<or>
   (\<exists>line \<in> set lines. xsln_etid line = fst p \<and> extend_line bd (part0 line) = Inr (snd p))"
proof (induction lines arbitrary: w)
  case Nil
  then show ?case by simp
next
  case (Cons line lines)
  show ?case
  proof (cases "extend_line bd (part0 line)")
    case (Inl e)
    with Cons.prems show ?thesis by simp
  next
    case (Inr pointlist)
    with Cons.prems have "p \<in> set (xsln_temp (fst (extend_lines bd lines
        (w\<lparr>xsln_temp := xsln_temp w @ [(xsln_etid line, pointlist)]\<rparr>))))"
      by simp
    from Cons.IH [OF this] Inr show ?thesis
      by auto
  qed
qed

lemma extend_lines_keeps:
  "unloc_wwpt_by_xs (fst (extend_lines bd lines w)) = unloc_wwpt_by_xs w"
  "wwpt_unloc_merge (fst (extend_lines bd lines w)) = wwpt_unloc_merge w"
  "lixpys_unloc_2d_line (fst (extend_lines bd lines w)) = lixpys_unloc_2d_line w"
  by (induction lines arbitrary: w; auto split: sum.splits)+

lemma near_analysis_rows:
  "f \<in> set (unloc_wwpt_by_xs (fst (near_analysis bd wwpt lines w))) \<Longrightarrow>
   f \<in> set (unloc_wwpt_by_xs w) \<or>
   (\<exists>l \<in> set lines.
      snd f = map (near_row bd (snd l)) (filter (\<lambda>well. wwpt_etid well = fst l) wwpt))"
proof (induction lines arbitrary: w)
  case Nil
  then show ?case by simp
next
  case (Cons l lines)
  obtain et_id g where l: "l = (et_id, g)"
    by (cases l)
  let ?file = "map (near_row bd g) (filter (\<lambda>well. wwpt_etid well = et_id) wwpt)"
  let ?w = "w\<lparr>unloc_wwpt_by_xs := AList.update (''wwpt_'' @ et_id) ?file (unloc_wwpt_by_xs w)\<rparr>"
  from Cons.prems have "f \<in> set (unloc_wwpt_by_xs (fst (near_analysis bd wwpt lines ?w)))"
    by (simp add: l Let_def)
  from Cons.IH [OF this] show ?case
  proof
    assume "f \<in> set (unloc_wwpt_by_xs ?w)"
    with set_update_subset [of "''wwpt_'' @ et_id" ?file "unloc_wwpt_by_xs w"]
    have "f = (''wwpt_'' @ et_id, ?file) \<or> f \<in> set (unloc_wwpt_by_xs w)"
      by auto
    then show ?thesis
      by (auto simp: l)
  next
    assume "\<exists>l \<in> set lines.
      snd f = map (near_row bd (snd l)) (filter (\<lambda>well. wwpt_etid well = fst l) wwpt)"
    then show ?thesis
      by auto
  qed
qed

lemma near_analysis_keeps:
  "xsln_temp (fst (near_analysis bd wwpt lines w)) = xsln_temp w"
  "wwpt_unloc_merge (fst (near_analysis bd wwpt lines w)) = wwpt_unloc_merge w"
  "lixpys_unloc_2d_line (fst (near_analysis bd wwpt lines w)) = lixpys_unloc_2d_line w"
  by (induction lines arbitrary: w; auto simp: Let_def)+

lemma strat_records_keeps:
  "xsln_temp (strat_records bd ve rows w) = xsln_temp w"
  "unloc_wwpt_by_xs (strat_records bd ve rows w) = unloc_wwpt_by_xs w"
proof (induction rows arbitrary: w)
  case Nil
  {
    case 1
    show ?case by simp
  next
    case 2
    show ?case by simp
  }
next
  case (Cons row rows)
  have one: "xsln_temp (strat_record bd ve row w) = xsln_temp w \<and>
      unloc_wwpt_by_xs (strat_record bd ve row w) = unloc_wwpt_by_xs w" for w
    by (rule strat_record_cases [where row = row and w = w])
      (auto simp: strat_record_skipped strat_record_unmatched strat_record_drawn printit_def
        insert_rows_def Let_def)
  {
    case 1
    show ?case using Cons(1) one by simp
  next
    case 2
    show ?case using Cons(2) one by simp
  }
qed

lemma preflight_keeps:
  assumes "f \<in> set (preflight inp)"
  shows "xsln_temp (fst (f w)) = xsln_temp w"
    and "unloc_wwpt_by_xs (fst (f w)) = unloc_wwpt_by_xs w"
    and "wwpt_unloc_merge (fst (f w)) = wwpt_unloc_merge w"
    and "lixpys_unloc_2d_line (fst (f w)) = lixpys_unloc_2d_line w"
  using arg_cong [OF preflight_only_messages [OF assms, of w], of xsln_temp]
    arg_cong [OF preflight_only_messages [OF assms, of w], of unloc_wwpt_by_xs]
    arg_cong [OF preflight_only_messages [OF assms, of w], of wwpt_unloc_merge]
    arg_cong [OF preflight_only_messages [OF assms, of w], of lixpys_unloc_2d_line]
  by simp_all

text \<open>
  Every row of the merged well point file of a run is a well point of the input after
  near analysis on the extended line of a cross-section line with its cross-section id.
\<close>

lemma run_wells:
  assumes "r \<in> set (wwpt_unloc_merge (fst (CreateLixpys_unloc inp)))"
  shows "\<exists>line \<in> set (xsln_file_orig inp). \<exists>well \<in> set (wwpt_file_orig inp). \<exists>ext.
     wwpt_etid well = xsln_etid line \<and>
     extend_line (buffer_dist inp) (part0 line) = Inr ext \<and>
     r = near_row (buffer_dist inp) ext well"
proof -
  let ?bd = "buffer_dist inp"
  let ?R = "\<lambda>r. \<exists>line \<in> set (xsln_file_orig inp). \<exists>well \<in> set (wwpt_file_orig inp). \<exists>ext.
     wwpt_etid well = xsln_etid line \<and> extend_line ?bd (part0 line) = Inr ext \<and>
     r = near_row ?bd ext well"
  let ?A = "\<lambda>w. \<forall>p \<in> set (xsln_temp w). \<exists>line \<in> set (xsln_file_orig inp).
     xsln_etid line = fst p \<and> extend_line ?bd (part0 line) = Inr (snd p)"
  let ?B = "\<lambda>w. \<forall>f \<in> set (unloc_wwpt_by_xs w). \<forall>r \<in> set (snd f). ?R r"
  let ?C = "\<lambda>w. \<forall>r \<in> set (wwpt_unloc_merge w). ?R r"
  let ?I = "\<lambda>w. ?A w \<and> ?B w \<and> ?C w"
  have "?I (fst (run_stages (preflight inp @ processing inp) empty_workspace))"
  proof (rule run_stages_invariant)
    show "?I empty_workspace"
      by (simp add: empty_workspace_def)
  next
    fix f and w :: workspace
    assume f: "f \<in> set (preflight inp @ processing inp)" and I: "?I w"
    then consider (pre) "f \<in> set (preflight inp)"
      | (ext) "f = extend_lines ?bd (xsln_file_orig inp)"
      | (near) "f = (\<lambda>w. near_analysis ?bd (wwpt_file_orig inp) (xsln_temp w) w)"
      | (merge) "f = merge_wwpt"
      | (strat) "f = strat_loop inp"
      | (poly) "f = buffer_and_sort inp"
      by (auto simp: processing_def)
    then show "?I (fst (f w))"
    proof cases
      case pre
      with I show ?thesis
        by (simp add: preflight_keeps)
    next
      case ext
      have "?A (fst (f w))"
        unfolding ext using extend_lines_rows [of _ ?bd "xsln_file_orig inp" w] I by blast
      with I show ?thesis
        by (simp add: ext extend_lines_keeps)
    next
      case near
      have "?B (fst (f w))"
      proof (intro ballI)
        fix fc r
        assume fc: "fc \<in> set (unloc_wwpt_by_xs (fst (f w)))" and r: "r \<in> set (snd fc)"
        from fc near_analysis_rows [of fc ?bd "wwpt_file_orig inp" "xsln_temp w" w]
        consider "fc \<in> set (unloc_wwpt_by_xs w)"
          | l where "l \<in> set (xsln_temp w)"
            "snd fc = map (near_row ?bd (snd l))
               (filter (\<lambda>well. wwpt_etid well = fst l) (wwpt_file_orig inp))"
          unfolding near by blast
        then show "?R r"
        proof cases
          case 1
          with I r show ?thesis by blast
        next
          case 2
          from 2(1) I obtain line where line: "line \<in> set (xsln_file_orig inp)"
            "xsln_etid line = fst l" "extend_line ?bd (part0 line) = Inr (snd l)"
            by blast
          from r 2(2) obtain well where well: "well \<in> set (wwpt_file_orig inp)"
            "wwpt_etid well = fst l" "r = near_row ?bd (snd l) well"
            by auto
          from line well show ?thesis
            by (intro bexI [of _ line] bexI [of _ well] exI [of _ "snd l"]) simp_all
        qed
      qed
      with I show ?thesis
        by (simp add: near near_analysis_keeps)
    next
      case merge
      from I have "?C (fst (merge_wwpt w))"
        by (auto simp: merge_wwpt_def split: list.splits)
      moreover have "xsln_temp (fst (merge_wwpt w)) = xsln_temp w"
        and "unloc_wwpt_by_xs (fst (merge_wwpt w)) = unloc_wwpt_by_xs w"
        by (simp_all add: merge_wwpt_def split: list.splits)
      ultimately show ?thesis
        using I by (simp add: merge)
    next
      case strat
      have "xsln_temp (fst (strat_loop inp w)) = xsln_temp w"
        and "unloc_wwpt_by_xs (fst (strat_loop inp w)) = unloc_wwpt_by_xs w"
        and "wwpt_unloc_merge (fst (strat_loop inp w)) = wwpt_unloc_merge w"
        by (simp_all add: strat_loop_def nomatch_summary_def printit_def strat_records_keeps
            strat_records_merge)
      with I show ?thesis
        by (simp add: strat)
    next
      case poly
      with I show ?thesis
        by (simp add: buffer_and_sort_def Let_def)
    qed
  qed
  with assms show ?thesis
    unfolding CreateLixpys_unloc_def by blast
qed

lemma run_stages_append_Some:
  "snd (run_stages fs w) = Some e \<Longrightarrow> run_stages (fs @ gs) w = run_stages fs w"
  by (cases "run_stages fs w") (simp add: run_stages_append)

lemma run_stages_append_None:
  "snd (run_stages fs w) = None \<Longrightarrow>
   run_stages (fs @ gs) w = run_stages gs (fst (run_stages fs w))"
  by (cases "run_stages fs w") (simp add: run_stages_append)

text \<open>
  Every 2D line of a run is drawn from a stratigraphy record of the input and a row of
  the merged well point file of the run, at the measure of that row divided by 0.3048
  and by the vertical exaggeration.
\<close>

lemma run_sticks:
  assumes "r \<in> set (lixpys_unloc_2d_line (fst (CreateLixpys_unloc inp)))"
  shows "\<exists>well \<in> set (wwpt_unloc_merge (fst (CreateLixpys_unloc inp))).
     \<exists>row \<in> set (strat_table inp).
       near_wellid well = strat_wellid row \<and>
       elev_top row = Some (l2_z_top r) \<and> elev_bot row = Some (l2_z_bot r) \<and>
       l2_geometry r =
         [(OnLine_DIST well / 0.3048 / real_of_int (vertical_exaggeration inp), l2_z_top r),
          (OnLine_DIST well / 0.3048 / real_of_int (vertical_exaggeration inp), l2_z_bot r)]"
proof -
  let ?bd = "buffer_dist inp" and ?ve = "vertical_exaggeration inp"
  let ?before = "preflight inp @
     [extend_lines ?bd (xsln_file_orig inp),
      (\<lambda>w. near_analysis ?bd (wwpt_file_orig inp) (xsln_temp w) w),
      merge_wwpt]"
  let ?w3 = "fst (run_stages ?before empty_workspace)"
  have split: "preflight inp @ processing inp = ?before @ [strat_loop inp, buffer_and_sort inp]"
    by (simp add: processing_def)
  have none: "lixpys_unloc_2d_line ?w3 = []"
  proof (rule run_stages_invariant [where I = "\<lambda>w. lixpys_unloc_2d_line w = []"])
    show "lixpys_unloc_2d_line empty_workspace = []"
      by (simp add: empty_workspace_def)
  next
    fix f and w :: workspace
    assume "f \<in> set ?before" and "lixpys_unloc_2d_line w = []"
    then show "lixpys_unloc_2d_line (fst (f w)) = []"
      by (auto simp: preflight_keeps extend_lines_keeps near_analysis_keeps merge_wwpt_def
          split: list.splits)
  qed
  show ?thesis
  proof (cases "snd (run_stages ?before empty_workspace)")
    case (Some e)
    then have "CreateLixpys_unloc inp = run_stages ?before empty_workspace"
      unfolding CreateLixpys_unloc_def split by (rule run_stages_append_Some)
    with assms none show ?thesis
      by simp
  next
    case None
    then have "CreateLixpys_unloc inp =
        run_stages [strat_loop inp, buffer_and_sort inp] ?w3"
      unfolding CreateLixpys_unloc_def split by (rule run_stages_append_None)
    also have "\<dots> = buffer_and_sort inp (fst (strat_loop inp ?w3))"
      by (simp add: strat_loop_def stage_case_id)
    finally have run: "CreateLixpys_unloc inp =
        buffer_and_sort inp (fst (strat_loop inp ?w3))" .
    have lines: "lixpys_unloc_2d_line (fst (CreateLixpys_unloc inp)) =
        lixpys_unloc_2d_line (strat_records ?bd ?ve (strat_table inp) ?w3)"
      and merge: "wwpt_unloc_merge (fst (CreateLixpys_unloc inp)) = wwpt_unloc_merge ?w3"
      unfolding run
      by (simp_all add: buffer_and_sort_def strat_loop_def nomatch_summary_def printit_def
          strat_records_merge Let_def)
    from assms strat_records_2d_rows [of r ?bd ?ve "strat_table inp" ?w3] none
    show ?thesis
      unfolding lines merge by simp
  qed
qed

end
